theory Spec2Isabelle
  imports Complex_Main "HOL-Library.Multiset" "HOL-Library.AList"
begin

section \<open>Data model (internal/models/models.go)\<close>

text \<open>
  Go's \<open>int\<close> is modelled as \<open>int\<close>, \<open>float64\<close> as \<open>real\<close> (rounding is not
  modelled), \<open>string\<close> as a list of bytes. A \<open>time.Time\<close> is the number of
  nanoseconds since the zero instant of \<open>time.Time\<close>, so that \<open>t.IsZero()\<close> is
  \<open>t = 0\<close>.
\<close>

type_synonym time = int

record TrendMetrics =
  Stars24h :: int
  Forks24h :: int
  Views7d :: int

record Repository =
  Name :: string
  URL :: string
  Description :: string
  Language :: string
  Stars :: int
  Forks :: int
  GainedStars :: int
  GainedForks :: int
  LastUpdated :: time
  LastCommit :: time
  TechStack :: "string list"
  TrendMetrics :: TrendMetrics
  RelevanceScore :: real
  HasDocs :: bool
  HasWiki :: bool
  HasReadme :: bool
  DocsURL :: string
  ModelCategories :: "string list"
  Source :: string
  PaperURL :: string
  PaperTitle :: string
  Authors :: "string list"

text \<open>The zero value \<open>models.Repository{}\<close>.\<close>

definition zeroRepository :: Repository where
  "zeroRepository =
     \<lparr>Name = [], URL = [], Description = [], Language = [], Stars = 0, Forks = 0,
      GainedStars = 0, GainedForks = 0, LastUpdated = 0, LastCommit = 0, TechStack = [],
      TrendMetrics = \<lparr>Stars24h = 0, Forks24h = 0, Views7d = 0\<rparr>, RelevanceScore = 0,
      HasDocs = False, HasWiki = False, HasReadme = False, DocsURL = [],
      ModelCategories = [], Source = [], PaperURL = [], PaperTitle = [], Authors = []\<rparr>"

section \<open>Aggregator: mergeRepositories (cmd/server/main.go)\<close>

text \<open>
  A Go \<open>map[string]Repository\<close> is an association list with distinct keys:
  \<open>repoMap[k] = v\<close> is \<^const>\<open>AList.update\<close> (replace in place, or add), the lookup
  \<open>_, exists := repoMap[k]\<close> is \<^const>\<open>map_of\<close>. The order in which \<open>range\<close> visits
  the entries of a map is not specified by Go; it is the parameter \<open>ord\<close>, which
  rearranges the entries. \<open>range_order ord\<close> says that \<open>ord\<close> visits every entry
  exactly once.
\<close>

type_synonym repoMap = "(string \<times> Repository) list"

definition range_order :: "(repoMap \<Rightarrow> repoMap) \<Rightarrow> bool" where
  "range_order ord \<longleftrightarrow> (\<forall>m. mset (ord m) = mset m)"

definition addFirst :: "Repository list \<Rightarrow> repoMap \<Rightarrow> repoMap" where
  "addFirst repos1 m = fold (\<lambda>repo m. AList.update (Name repo) repo m) repos1 m"

definition addSecond :: "Repository list \<Rightarrow> repoMap \<Rightarrow> repoMap" where
  "addSecond repos2 m =
     fold (\<lambda>repo m. if map_of m (Name repo) = None then AList.update (Name repo) repo m else m)
       repos2 m"

definition repoA :: Repository where
  "repoA = zeroRepository\<lparr>Name := ''o/r'', Stars := 1\<rparr>"

definition repoB :: Repository where
  "repoB = zeroRepository\<lparr>Name := ''o/r'', Stars := 2\<rparr>"

definition repoC :: Repository where
  "repoC = zeroRepository\<lparr>Name := ''p/q'', Stars := 3\<rparr>"

definition mergeRepositories ::
  "(repoMap \<Rightarrow> repoMap) \<Rightarrow> Repository list \<Rightarrow> Repository list \<Rightarrow> Repository list" where
  "mergeRepositories ord repos1 repos2 = map snd (ord (addSecond repos2 (addFirst repos1 [])))"

section \<open>Strings, time and the random source\<close>

text \<open>
  The functions of Go's \<open>strings\<close> package that the code uses, on byte strings.
  \<open>ToLower\<close> lowers the ASCII letters and leaves every other byte as it is.
\<close>

definition toLowerChar :: "char \<Rightarrow> char" where
  "toLowerChar c =
     (case map_of (zip ''ABCDEFGHIJKLMNOPQRSTUVWXYZ'' ''abcdefghijklmnopqrstuvwxyz'') c of
        None \<Rightarrow> c | Some d \<Rightarrow> d)"

definition ToLower :: "string \<Rightarrow> string" where
  "ToLower s = map toLowerChar s"

fun HasPrefix :: "string \<Rightarrow> string \<Rightarrow> bool" where
  "HasPrefix s [] = True"
| "HasPrefix [] (p # ps) = False"
| "HasPrefix (c # cs) (p # ps) = (c = p \<and> HasPrefix cs ps)"

fun Contains :: "string \<Rightarrow> string \<Rightarrow> bool" where
  "Contains [] sub = (sub = [])"
| "Contains (c # cs) sub = (HasPrefix (c # cs) sub \<or> Contains cs sub)"

text \<open>\<open>strings.Split(s, sep)\<close> for a non-empty separator; \<open>acc\<close> is the piece being read.\<close>

function SplitAcc :: "string \<Rightarrow> string \<Rightarrow> string \<Rightarrow> string list" where
  "SplitAcc sep acc [] = [rev acc]"
| "SplitAcc sep acc (c # cs) =
     (if sep \<noteq> [] \<and> HasPrefix (c # cs) sep
      then rev acc # SplitAcc sep [] (drop (length sep) (c # cs))
      else SplitAcc sep (c # acc) cs)"
  by pat_completeness auto
termination
  by (relation "measure (\<lambda>(sep, acc, s). length s)") auto

definition Split :: "string \<Rightarrow> string \<Rightarrow> string list" where
  "Split s sep = SplitAcc sep [] s"

text \<open>
  \<open>time.Since(t)\<close> at the instant \<open>now\<close>: a \<open>Duration\<close> in nanoseconds, which
  \<open>Time.Sub\<close> saturates at the ends of \<open>int64\<close>. \<open>Hours\<close> is \<open>Duration.Hours()\<close>;
  \<open>toInt\<close> is the conversion \<open>int(x)\<close> of a \<open>float64\<close>, which drops the fraction.
\<close>

definition Since :: "time \<Rightarrow> time \<Rightarrow> int" where
  "Since now t = max (- (2 ^ 63)) (min (2 ^ 63 - 1) (now - t))"

definition Hours :: "int \<Rightarrow> real" where
  "Hours d = real_of_int d / 3600000000000"

definition toInt :: "real \<Rightarrow> int" where
  "toInt x = (if 0 \<le> x then \<lfloor>x\<rfloor> else \<lceil>x\<rceil>)"

definition maxInt :: "int \<Rightarrow> int \<Rightarrow> int" where
  "maxInt a b = (if a > b then a else b)"

definition minInt :: "int \<Rightarrow> int \<Rightarrow> int" where
  "minInt a b = (if a < b then a else b)"

definition minFloat :: "real \<Rightarrow> real \<Rightarrow> real" where
  "minFloat a b = (if a < b then a else b)"

text \<open>
  The generator of \<open>math/rand\<close> is the stream of its future draws: \<open>Intn n\<close> reads the
  next draw into \<open>[0, n)\<close>, \<open>Float64\<close> into \<open>[0, 1)\<close>, and \<open>rnext\<close> is the generator
  after one draw.
\<close>

type_synonym rand_src = "nat \<Rightarrow> nat"

definition rnext :: "rand_src \<Rightarrow> rand_src" where
  "rnext g = (\<lambda>i. g (Suc i))"

definition Intn :: "nat \<Rightarrow> rand_src \<Rightarrow> int" where
  "Intn n g = int (g 0 mod n)"

definition Float64 :: "rand_src \<Rightarrow> real" where
  "Float64 g = real (g 0 mod 2 ^ 53) / 2 ^ 53"

section \<open>Papers: scoring (internal/papers)\<close>

text \<open>
  The fields of \<open>models.Paper\<close> that the scoring and the read endpoint use. The fields
  \<open>Keywords\<close>, \<open>KeyTechniques\<close>, \<open>CodeSnippet\<close> and \<open>ArchitectureDiagram\<close> are left
  out: no field kept here is computed from them. \<open>URL'\<close>, \<open>Authors'\<close> and \<open>Source'\<close>
  are the fields \<open>URL\<close>, \<open>Authors\<close> and \<open>Source\<close> of a paper.
\<close>

record Paper =
  Title :: string
  URL' :: string
  Authors' :: "string list"
  PublishedDate :: time
  Source' :: string
  Summary :: string
  CitationCount :: int
  CitationVelocity :: real
  NoveltyScore :: real
  ReproducibilityScore :: real
  CoreContributions :: "string list"

definition zeroPaper :: Paper where
  "zeroPaper =
     \<lparr>Title = [], URL' = [], Authors' = [], PublishedDate = 0, Source' = [], Summary = [],
      CitationCount = 0, CitationVelocity = 0, NoveltyScore = 0, ReproducibilityScore = 0,
      CoreContributions = []\<rparr>"

definition containsAny :: "string \<Rightarrow> string \<Rightarrow> bool" where
  "containsAny text term = Contains (ToLower text) (ToLower term)"

definition noveltyTerms :: "string list" where
  "noveltyTerms = [''new'', ''novel'', ''first'', ''innovative'', ''breakthrough'',
     ''state-of-the-art'', ''sota'', ''cutting-edge'', ''pioneering'', ''groundbreaking'',
     ''unprecedented'']"

definition reproducibilityTerms :: "string list" where
  "reproducibilityTerms = [''code'', ''github'', ''implementation'', ''dataset'', ''public'',
     ''available'', ''open-source'', ''repository'', ''replicate'', ''reproduce'']"

text \<open>
  The two scoring loops of \<open>enhancePaperWithDetails\<close> have the same body: a term found
  in the title adds 0.3, a term found in a non-empty summary adds 0.2.
\<close>

fun termScore :: "Paper \<Rightarrow> string list \<Rightarrow> real \<Rightarrow> real" where
  "termScore paper [] score = score"
| "termScore paper (term # terms) score =
     (let s1 = (if containsAny (Title paper) term then score + 0.3 else score);
          s2 = (if Summary paper \<noteq> [] \<and> containsAny (Summary paper) term then s1 + 0.2 else s1)
      in termScore paper terms s2)"

definition capScore :: "real \<Rightarrow> real" where
  "capScore score = (if score > 5.0 then 5.0 else score)"

definition daysSince :: "time \<Rightarrow> time \<Rightarrow> real" where
  "daysSince now t = Hours (Since now t) / 24"

definition daysSincePublication :: "time \<Rightarrow> Paper \<Rightarrow> int" where
  "daysSincePublication now paper =
     (let d = toInt (daysSince now (PublishedDate paper)) in if d < 1 then 1 else d)"

definition coreContributions :: "string \<Rightarrow> string list" where
  "coreContributions summary =
     map (\<lambda>sentence. sentence @ ''.'')
       (filter (\<lambda>sentence. length sentence > 10) (take 3 (Split summary ''. '')))"

definition enhancePaperWithDetails :: "time \<Rightarrow> Paper \<Rightarrow> rand_src \<Rightarrow> Paper \<times> rand_src" where
  "enhancePaperWithDetails now paper g =
     (let titleLength = int (length (Split (ToLower (Title paper)) '' ''));
          summaryLength = (if Summary paper \<noteq> []
                           then int (length (Split (ToLower (Summary paper)) '' '')) else 0);
          citationAdjust = titleLength mod 5 + summaryLength mod 10;
          daysOld = daysSince now (PublishedDate paper);
          count = (if daysOld < 30 then Intn 20 g + 1 + citationAdjust
                   else Intn 30 g + 20 + citationAdjust);
          p1 = paper\<lparr>CitationCount := count\<rparr>;
          p2 = p1\<lparr>CitationVelocity :=
                 real_of_int (CitationCount p1) / real_of_int (daysSincePublication now p1)\<rparr>;
          p3 = p2\<lparr>NoveltyScore := capScore (termScore p2 noveltyTerms 3.0)\<rparr>;
          p4 = p3\<lparr>ReproducibilityScore := capScore (termScore p3 reproducibilityTerms 2.5)\<rparr>;
          p5 = p4\<lparr>CoreContributions := coreContributions (Summary p4)\<rparr>
      in (p5, rnext g))"

text \<open>The body of the loop of \<open>enrichPapersWithScores\<close>, for one paper.\<close>

definition enrichPaper :: "time \<Rightarrow> Paper \<Rightarrow> rand_src \<Rightarrow> Paper \<times> rand_src" where
  "enrichPaper now paper g0 =
     (let (p1, g1) = (if CitationCount paper = 0
                      then (paper\<lparr>CitationCount := Intn 100 g0 + 1\<rparr>, rnext g0)
                      else (paper, g0));
          p2 = (if CitationVelocity p1 = 0
                then p1\<lparr>CitationVelocity :=
                       real_of_int (CitationCount p1) / real_of_int (daysSincePublication now p1)\<rparr>
                else p1);
          (p3, g3) = (if NoveltyScore p2 = 0
                      then (p2\<lparr>NoveltyScore := 3.0 + Float64 g1 * 2.0\<rparr>, rnext g1)
                      else (p2, g1));
          (p4, g4) = (if ReproducibilityScore p3 = 0
                      then (p3\<lparr>ReproducibilityScore := 2.0 + Float64 g3 * 3.0\<rparr>, rnext g3)
                      else (p3, g3))
      in if CoreContributions p4 = [] then enhancePaperWithDetails now p4 g4 else (p4, g4))"

text \<open>
  \<open>enrichPapersWithScores\<close>: \<open>g\<close> is the generator that
  \<open>rand.Seed(time.Now().UnixNano())\<close> installs at the start of the call.
\<close>

fun enrichPapersWithScores :: "time \<Rightarrow> rand_src \<Rightarrow> Paper list \<Rightarrow> Paper list" where
  "enrichPapersWithScores now g [] = []"
| "enrichPapersWithScores now g (paper # papers) =
     (let (p, g') = enrichPaper now paper g in p # enrichPapersWithScores now g' papers)"

section \<open>Papers: fetchers (internal/papers)\<close>

text \<open>
  What a fetcher reads from the network is an input of the model: the error of the
  request or of the decoding (\<open>Inl\<close>), or the decoded payload (\<open>Inr\<close>). A date field is
  the \<open>time.Time\<close> that the code's \<open>time.Parse\<close> calls give for it, the zero time when
  they all fail.
\<close>

datatype json = JNull | JBool bool | JNumber real | JString string
  | JArray "json list" | JObject "(string \<times> json) list"

text \<open>
  \<open>json.Unmarshal\<close> of a raw \<open>authors\<close> field (\<open>None\<close>: the field is absent, the
  raw message is empty and every \<open>Unmarshal\<close> fails) into the three targets that the
  code tries. As in \<open>encoding/json\<close>: \<open>null\<close> leaves the target as it is and is no
  error; an object key matches the field \<open>name\<close> whatever its case; with several
  matching keys the last one is kept; a value of the wrong type is an error.
\<close>

fun objectName :: "(string \<times> json) list \<Rightarrow> string \<Rightarrow> string option" where
  "objectName [] name = Some name"
| "objectName ((k, v) # kvs) name =
     (if ToLower k = ''name''
      then (case v of JString s \<Rightarrow> objectName kvs s
                     | JNull \<Rightarrow> objectName kvs name
                     | _ \<Rightarrow> None)
      else objectName kvs name)"

definition elementName :: "json \<Rightarrow> string option" where
  "elementName j = (case j of JObject kvs \<Rightarrow> objectName kvs [] | JNull \<Rightarrow> Some [] | _ \<Rightarrow> None)"

definition elementString :: "json \<Rightarrow> string option" where
  "elementString j = (case j of JString s \<Rightarrow> Some s | JNull \<Rightarrow> Some [] | _ \<Rightarrow> None)"

definition unmarshalAuthorsArray :: "json option \<Rightarrow> string list option" where
  "unmarshalAuthorsArray raw =
     (case raw of Some JNull \<Rightarrow> Some [] | Some (JArray xs) \<Rightarrow> those (map elementName xs)
                | _ \<Rightarrow> None)"

definition unmarshalAuthorStr :: "json option \<Rightarrow> string option" where
  "unmarshalAuthorStr raw =
     (case raw of Some JNull \<Rightarrow> Some [] | Some (JString s) \<Rightarrow> Some s | _ \<Rightarrow> None)"

definition unmarshalAuthorStrArray :: "json option \<Rightarrow> string list option" where
  "unmarshalAuthorStrArray raw =
     (case raw of Some JNull \<Rightarrow> Some [] | Some (JArray xs) \<Rightarrow> those (map elementString xs)
                | _ \<Rightarrow> None)"

text \<open>
  The handling of the authors field, the same text in \<open>fetchPapersWithCode\<close> and in
  \<open>scrapePapersWithCodeAPI\<close>.
\<close>

definition parseAuthors :: "json option \<Rightarrow> string list" where
  "parseAuthors raw =
     (case unmarshalAuthorsArray raw of
        Some authorsArray \<Rightarrow> authorsArray
      | None \<Rightarrow>
          (case unmarshalAuthorStr raw of
             Some authorStr \<Rightarrow> [authorStr]
           | None \<Rightarrow>
               (case unmarshalAuthorStrArray raw of
                  Some authorStrArray \<Rightarrow> authorStrArray
                | None \<Rightarrow> [''Unknown Author''])))"

record pwcResult =
  pwcTitle :: string
  pwcURL :: string
  pwcPublished :: time
  pwcAuthors :: "json option"
  pwcAbstract :: string

definition day :: int where
  "day = 86400000000000"

text \<open>
  The loop of \<open>fetchPapersWithCode\<close> over the decoded results. A result without a
  readable date draws \<open>rand.Intn(30)\<close> and is dated that many days before \<open>now\<close>; every
  result draws \<open>rand.Intn(50)\<close> for its citation count.
\<close>

fun pwcLoop :: "time \<Rightarrow> rand_src \<Rightarrow> pwcResult list \<Rightarrow> Paper list" where
  "pwcLoop now g [] = []"
| "pwcLoop now g (result # results) =
     (let (publishedDate, g1) =
            (if pwcPublished result = 0 then (now - Intn 30 g * day, rnext g)
             else (pwcPublished result, g));
          paper = zeroPaper\<lparr>Title := pwcTitle result, URL' := pwcURL result,
                    Authors' := parseAuthors (pwcAuthors result), PublishedDate := publishedDate,
                    Source' := ''Papers with Code'', Summary := pwcAbstract result,
                    CitationCount := Intn 50 g1 + 10\<rparr>
      in paper # pwcLoop now (rnext g1) results)"

definition fetchPapersWithCode ::
  "time \<Rightarrow> rand_src \<Rightarrow> string + pwcResult list \<Rightarrow> string + Paper list" where
  "fetchPapersWithCode now g response =
     (case response of Inl err \<Rightarrow> Inl err | Inr results \<Rightarrow> Inr (pwcLoop now g results))"

definition newTechTerms :: "string list" where
  "newTechTerms =
     [''gpt-4'', ''claude 3'', ''gemini'', ''llama 3'', ''mistral'', ''mixtral'',
      ''multimodal'', ''vision'', ''audio'', ''video'', ''agents'', ''rag'', ''sora'',
      ''generative'', ''diffusion'', ''mamba'', ''state space model'', ''tokens'']"

definition calculateNoveltyScore :: "string \<Rightarrow> string \<Rightarrow> real" where
  "calculateNoveltyScore title text =
     (let combined = ToLower (title @ '' '' @ text);
          score = fold (\<lambda>term score. if Contains combined term then score + 0.1 else score)
                    newTechTerms 3.0
      in if score < 1.0 then 1.0 else if score > 5.0 then 5.0 else score)"

definition isAIRelated :: "string \<Rightarrow> bool" where
  "isAIRelated text =
     list_ex (Contains (ToLower text))
       [''ai'', ''machine learning'', ''ml'', ''llm'', ''language model'', ''chatgpt'',
        ''gpt'', ''claude'', ''gemini'', ''openai'', ''anthropic'', ''huggingface'',
        ''neural network'', ''deep learning'', ''diffusion'', ''transformer'', ''nlp'',
        ''bert'', ''rlhf'', ''fine-tuning'', ''rag'', ''agent'']"

record hnStory =
  hnTitle :: string
  hnURL :: string
  hnScore :: int
  hnTime :: int
  hnBy :: string
  hnText :: string

definition hnKeywords :: "string list" where
  "hnKeywords =
     [''ai'', ''artificial intelligence'', ''machine learning'', ''ml'', ''llm'',
      ''large language model'', ''chatgpt'', ''gpt'', ''claude'', ''gemini'', ''openai'',
      ''anthropic'', ''llama'', ''mistral'', ''huggingface'', ''neural network'',
      ''deep learning'', ''diffusion'', ''transformer'', ''nlp'']"

text \<open>\<open>time.Unix(sec, 0)\<close>: the Unix epoch is 62135596800 seconds after the zero time.\<close>

definition Unix :: "int \<Rightarrow> time" where
  "Unix sec = (sec + 62135596800) * 1000000000"

definition hnPaper :: "time \<Rightarrow> hnStory \<Rightarrow> Paper" where
  "hnPaper now story =
     zeroPaper\<lparr>Title := hnTitle story, URL' := hnURL story, Authors' := [hnBy story],
       PublishedDate := Unix (hnTime story), Source' := ''HackerNews'', Summary := hnText story,
       CitationCount := hnScore story,
       CitationVelocity := real_of_int (hnScore story)
         / real_of_int (maxInt 1 (toInt (daysSince now (Unix (hnTime story))))),
       NoveltyScore := calculateNoveltyScore (hnTitle story) (hnText story)\<rparr>"

text \<open>
  The loop over the first 30 story ids: \<open>None\<close> is a story whose request or decoding
  failed and is skipped; the loop stops at five AI-related stories.
\<close>

fun hnLoop :: "time \<Rightarrow> hnStory option list \<Rightarrow> Paper list \<Rightarrow> Paper list" where
  "hnLoop now [] results = results"
| "hnLoop now (None # stories) results = hnLoop now stories results"
| "hnLoop now (Some story # stories) results =
     (if list_ex (\<lambda>keyword. Contains (ToLower (hnTitle story)) (ToLower keyword)) hnKeywords
      then (let results' = results @ [hnPaper now story]
            in if length results' \<ge> 5 then results' else hnLoop now stories results')
      else hnLoop now stories results)"

definition fetchHackerNewsAIArticles ::
  "time \<Rightarrow> string + hnStory option list \<Rightarrow> string + Paper list" where
  "fetchHackerNewsAIArticles now response =
     (case response of Inl err \<Rightarrow> Inl err
                     | Inr stories \<Rightarrow> Inr (hnLoop now (take 30 stories) []))"

record devToArticle =
  dtTitle :: string
  dtURL :: string
  dtPublishedAt :: time
  dtDescription :: string
  dtReactionsCount :: real
  dtReadingTime :: real
  dtAuthorName :: string

definition devToPaper :: "time \<Rightarrow> devToArticle \<Rightarrow> Paper" where
  "devToPaper now article =
     zeroPaper\<lparr>Title := dtTitle article, URL' := dtURL article, Authors' := [dtAuthorName article],
       PublishedDate := dtPublishedAt article, Source' := ''Dev.to'',
       Summary := dtDescription article,
       CitationCount := toInt (dtReactionsCount article),
       CitationVelocity := real_of_int (toInt (dtReactionsCount article))
         / real_of_int (maxInt 1 (toInt (daysSince now (dtPublishedAt article)))),
       NoveltyScore := 3.5 + real_of_int (minInt (toInt (dtReadingTime article)) 30) / 10.0\<rparr>"

definition fetchDevToAIArticles ::
  "time \<Rightarrow> string + devToArticle list \<Rightarrow> string + Paper list" where
  "fetchDevToAIArticles now response =
     (case response of Inl err \<Rightarrow> Inl err | Inr articles \<Rightarrow> Inr (map (devToPaper now) articles))"

definition isSpace :: "char \<Rightarrow> bool" where
  "isSpace c \<longleftrightarrow> c \<in> set [CHR '' '', CHR 0x09, CHR 0x0A, CHR 0x0B, CHR 0x0C, CHR 0x0D]"

definition TrimSpace :: "string \<Rightarrow> string" where
  "TrimSpace s = rev (dropWhile isSpace (rev (dropWhile isSpace s)))"

definition csdnPaper :: "time \<Rightarrow> string \<Rightarrow> string \<Rightarrow> Paper" where
  "csdnPaper now title link =
     zeroPaper\<lparr>Title := title, URL' := link,
       Authors' := [''CSDN'' @ [CHR 0xE5, CHR 0x8D, CHR 0x9A, CHR 0xE5, CHR 0xAE, CHR 0xA2]],
       PublishedDate := now, Source' := ''CSDN'',
       Summary := ([CHR 0xE6, CHR 0x9D, CHR 0xA5, CHR 0xE8, CHR 0x87, CHR 0xAA] @ ''CSDN'' @ [CHR 0xE7, CHR 0x9A, CHR 0x84] @ ''AI'' @ [CHR 0xE6, CHR 0x8A, CHR 0x80, CHR 0xE6, CHR 0x9C, CHR 0xAF, CHR 0xE6, CHR 0x96, CHR 0x87, CHR 0xE7, CHR 0xAB, CHR 0xA0, CHR 0xEF, CHR 0xBC, CHR 0x9A]) @ title,
       CitationCount := 5, CitationVelocity := 0.5,
       NoveltyScore := calculateNoveltyScore title []\<rparr>"

text \<open>
  The loop of \<open>fetchCSDNArticles\<close> over the titles and links that the two regular
  expressions capture, each list cut to five.
\<close>

fun csdnLoop :: "time \<Rightarrow> string list \<Rightarrow> string list \<Rightarrow> Paper list \<Rightarrow> Paper list" where
  "csdnLoop now (t # titles) (l # links) results =
     (if length results < 5
      then (let title = TrimSpace t
            in if isAIRelated title then csdnLoop now titles links (results @ [csdnPaper now title l])
               else csdnLoop now titles links results)
      else results)"
| "csdnLoop now titles links results = results"

definition fetchCSDNArticles ::
  "time \<Rightarrow> string + string list \<times> string list \<Rightarrow> string + Paper list" where
  "fetchCSDNArticles now response =
     (case response of Inl err \<Rightarrow> Inl err
                     | Inr (titles, links) \<Rightarrow> Inr (csdnLoop now (take 5 titles) (take 5 links) []))"

fun Join :: "string list \<Rightarrow> string \<Rightarrow> string" where
  "Join [] sep = []"
| "Join [x] sep = x"
| "Join (x # y # ys) sep = x @ sep @ Join (y # ys) sep"

text \<open>
  One source of \<open>FetchOtherBlogPosts\<close> or \<open>FetchTopPapers\<close>: an error is recorded
  under the name of its source, a result is appended.
\<close>

definition addSource ::
  "string \<Rightarrow> string + Paper list \<Rightarrow> Paper list \<times> string list \<Rightarrow> Paper list \<times> string list" where
  "addSource name fetched acc =
     (case fetched of Inl err \<Rightarrow> (fst acc, snd acc @ [name @ '': '' @ err])
                    | Inr papers \<Rightarrow> (fst acc @ papers, snd acc))"

record sources =
  papersWithCode :: "string + pwcResult list"
  hackerNews :: "string + hnStory option list"
  devTo :: "string + devToArticle list"
  csdn :: "string + string list \<times> string list"

definition FetchOtherBlogPosts :: "time \<Rightarrow> sources \<Rightarrow> string + Paper list" where
  "FetchOtherBlogPosts now src =
     (let acc = addSource ''HackerNews'' (fetchHackerNewsAIArticles now (hackerNews src)) ([], []);
          acc = addSource ''Dev.to'' (fetchDevToAIArticles now (devTo src)) acc;
          acc = addSource ''CSDN'' (fetchCSDNArticles now (csdn src)) acc;
          (results, errors) = acc
      in if results = [] \<and> errors \<noteq> []
         then Inl (''failed to fetch articles from all sources: '' @ Join errors ''; '')
         else Inr results)"

text \<open>
  \<open>sort.Slice\<close> is not stable: all that is known of its result is that it holds the
  same elements and that no later element is less than an earlier one. The sort is
  the parameter \<open>srt\<close>, and \<open>sorts lt srt\<close> says that it is such a sort.
\<close>

definition sorts :: "('a \<Rightarrow> 'a \<Rightarrow> bool) \<Rightarrow> ('a list \<Rightarrow> 'a list) \<Rightarrow> bool" where
  "sorts lt srt \<longleftrightarrow>
     (\<forall>xs. mset (srt xs) = mset xs \<and> sorted_wrt (\<lambda>a b. \<not> lt b a) (srt xs))"

text \<open>The comparison of \<open>sortPapersByRelevance\<close>: a paper with the higher score comes first.\<close>

definition relevance :: "time \<Rightarrow> Paper \<Rightarrow> real" where
  "relevance now paper =
     (let daysOld = daysSince now (PublishedDate paper);
          freshness = 5.0 - min (daysOld / 60) 5.0
      in CitationVelocity paper * 0.3 + NoveltyScore paper * 0.3
         + real_of_int (CitationCount paper) / 100.0 * 0.25 + freshness * 0.15)"

definition papersLess :: "time \<Rightarrow> Paper \<Rightarrow> Paper \<Rightarrow> bool" where
  "papersLess now a b \<longleftrightarrow> relevance now a > relevance now b"

text \<open>
  \<open>FetchTopPapers\<close>. \<open>g0\<close> is the generator as the call finds it, \<open>g\<close> the one that
  \<open>enrichPapersWithScores\<close> seeds from the clock.
\<close>

definition FetchTopPapers ::
  "(Paper list \<Rightarrow> Paper list) \<Rightarrow> time \<Rightarrow> rand_src \<Rightarrow> rand_src \<Rightarrow> sources \<Rightarrow> string + Paper list" where
  "FetchTopPapers srt now g0 g src =
     (let pwc = fetchPapersWithCode now g0 (papersWithCode src);
          (allPapers, errors) =
            (case pwc of Inl err \<Rightarrow> ([], [''Papers with Code: '' @ err])
                       | Inr papers \<Rightarrow> (papers, []));
          (allPapers, errors) =
            (case FetchOtherBlogPosts now src of
               Inl err \<Rightarrow> (allPapers, errors @ [''Blog posts: '' @ err])
             | Inr blogPosts \<Rightarrow> (allPapers @ blogPosts, errors))
      in if allPapers = []
         then (if errors \<noteq> []
               then Inl (''failed to fetch papers from all sources: '' @ Join errors ''; '')
               else Inl ''no papers found from any source'')
         else Inr (srt (enrichPapersWithScores now g allPapers)))"

section \<open>Repositories: filter and scoring (internal/scrapers)\<close>

record FilterCriteria =
  MinStarsGrowthRate :: int
  MaxDaysSinceCommit :: int
  RequiresDocumentation :: bool
  MinRelevanceScore :: real

definition DefaultFilterCriteria :: FilterCriteria where
  "DefaultFilterCriteria =
     \<lparr>MinStarsGrowthRate = 0, MaxDaysSinceCommit = 180, RequiresDocumentation = False,
      MinRelevanceScore = 0.01\<rparr>"

definition AIKeywords :: "string list" where
  "AIKeywords =
     [''llm'', ''gpt'', ''bert'', ''transformer'', ''nlp'', ''ai'', ''machine-learning'',
      ''ml'', ''neural-network'', ''deep-learning'', ''artificial-intelligence'', ''agi'',
      ''agent'', ''reinforcement-learning'', ''rl'', ''natural-language-processing'',
      ''diffusion'', ''generative-ai'', ''language-model'', ''stable-diffusion'', ''openai'',
      ''huggingface'', ''langchain'', ''chatgpt'', ''claude'', ''gemini'', ''mistral'',
      ''large-language-model'', ''multimodal'', ''rlhf'', ''alignment'', ''ai-agent'',
      ''ai-assistant'', ''ai-tools'', ''ai-art'', ''ai-service'', ''prompt-engineering'',
      ''fine-tuning'', ''vector-database'', ''semantic-search'', ''embedding'', ''llama'',
      ''mixtral'', ''vicuna'', ''pythia'', ''falcon'', ''qwen'', ''baichuan'', ''glm'',
      ''ernie'', ''cohere'', ''token'', ''tokenizer'', ''attention'', ''vllm'', ''tei'',
      ''rag'', ''retrieval-augmented'', ''text-to-image'', ''text-to-video'',
      ''text-to-speech'', ''speech-to-text'', ''image-generation'', ''computer-vision'',
      ''vision-language'', ''multimodality'', ''knowledge-graph'', ''sora'', ''midjourney'',
      ''dall-e'', ''tensor'', ''neural'', ''gans'', ''gan'', ''vae'', ''diffuser'',
      ''latent'', ''inference'', ''tensorflow'', ''pytorch'', ''onnx'', ''jax'', ''keras'',
      ''mxnet'', ''scikit-learn'', ''pandas'', ''numpy'', ''scipy'', ''matplotlib'',
      ''cpp-ai'', ''cpp-ml'', ''cpp-deep-learning'', ''libtorch'', ''tensorflow-cpp'',
      ''onnxruntime'', ''dlib'', ''opencv'', ''ncnn'', ''milvus'', ''faiss-cpp'', ''cuda'',
      ''cudnn'', ''tensorrt'', ''openvino'', ''nebula'', ''inference-engine'', ''go-ai'',
      ''go-ml'', ''go-deep-learning'', ''gorgonia'', ''gonum'', ''gosseract'', ''onnx-go'',
      ''tfgo'', ''gocv'', ''go-milvus'', ''ollama'', ''go-llm'', ''langchaingo'',
      ''go-openai'', ''weaviate'', ''go-embedding'', ''go-vector'']"

definition coreKeywords :: "string list" where
  "coreKeywords =
     [''llm'', ''ai'', ''ml'', ''gpt'', ''bert'', ''nlp'', ''language-model'',
      ''machine-learning'', ''deep-learning'']"

definition matchesAny :: "string list \<Rightarrow> Repository \<Rightarrow> bool" where
  "matchesAny keywords repo =
     list_ex (\<lambda>keyword. Contains (ToLower (Name repo)) keyword
                \<or> Contains (ToLower (Description repo)) keyword) keywords"

text \<open>
  The loop of \<open>filterReposByKeywords\<close>: a repository that matches a core keyword goes
  to \<open>filtered\<close>, one that only matches one of \<open>keywords\<close> to \<open>potentialRepos\<close>.
\<close>

fun filterLoop :: "string list \<Rightarrow> Repository list \<Rightarrow> Repository list \<times> Repository list
    \<Rightarrow> Repository list \<times> Repository list" where
  "filterLoop keywords [] acc = acc"
| "filterLoop keywords (repo # repos) (filtered, potentialRepos) =
     (if matchesAny coreKeywords repo
      then filterLoop keywords repos (filtered @ [repo], potentialRepos)
      else if matchesAny keywords repo
      then filterLoop keywords repos (filtered, potentialRepos @ [repo])
      else filterLoop keywords repos (filtered, potentialRepos))"

definition filterReposByKeywords :: "Repository list \<Rightarrow> string list \<Rightarrow> Repository list" where
  "filterReposByKeywords repos keywords =
     (let (filtered, potentialRepos) = filterLoop keywords repos ([], [])
      in filtered @ potentialRepos)"

text \<open>The test of one repository in the loop of \<open>applyFilterCriteria\<close>.\<close>

definition passes :: "time \<Rightarrow> FilterCriteria \<Rightarrow> Repository \<Rightarrow> bool" where
  "passes now criteria repo \<longleftrightarrow>
     \<not> Stars24h (TrendMetrics repo) < MinStarsGrowthRate criteria
     \<and> \<not> (LastCommit repo \<noteq> 0
          \<and> daysSince now (LastCommit repo) > real_of_int (MaxDaysSinceCommit criteria))
     \<and> \<not> (RequiresDocumentation criteria \<and> \<not> HasDocs repo)
     \<and> \<not> RelevanceScore repo < MinRelevanceScore criteria"

definition scoreLess :: "Repository \<Rightarrow> Repository \<Rightarrow> bool" where
  "scoreLess a b \<longleftrightarrow> RelevanceScore a > RelevanceScore b"

text \<open>\<open>applyFilterCriteria\<close>; \<open>srt\<close> is the \<open>sort.Slice\<close> by descending relevance score.\<close>

definition applyFilterCriteria ::
  "(Repository list \<Rightarrow> Repository list) \<Rightarrow> time \<Rightarrow> Repository list \<Rightarrow> FilterCriteria
    \<Rightarrow> Repository list" where
  "applyFilterCriteria srt now repos criteria =
     (if length repos < 50 then repos
      else (let filtered = filter (passes now criteria) repos
            in if length filtered < 50 \<and> length repos > 0
               then (let maxReturn = (if length repos < 50 then length repos else 50)
                     in take maxReturn (srt repos))
               else filtered))"

definition relevantKeywords :: "string list" where
  "relevantKeywords =
     [''llm'', ''agent'', ''multimodal'', ''rlhf'', ''diffusion'', ''agi'', ''ai'', ''ml'',
      ''gpt'', ''bert'', ''transformer'', ''nlp'', ''language-model'', ''claude'', ''gemini'',
      ''fine-tuning'', ''prompt'', ''rag'', ''anthropic'', ''openai'', ''text-to-image'']"

fun keywordLoop :: "string \<Rightarrow> string \<Rightarrow> string list \<Rightarrow> real \<Rightarrow> real" where
  "keywordLoop lowerName lowerDesc [] keywordScore = keywordScore"
| "keywordLoop lowerName lowerDesc (keyword # keywords) keywordScore =
     (let s1 = (if Contains lowerName keyword then keywordScore + 0.03 else keywordScore);
          s2 = (if Contains lowerDesc keyword then s1 + 0.01 else s1)
      in keywordLoop lowerName lowerDesc keywords s2)"

fun techLoop :: "string list \<Rightarrow> real \<Rightarrow> real" where
  "techLoop [] keywordScore = keywordScore"
| "techLoop (tech # techs) keywordScore =
     techLoop techs (if list_ex (Contains (ToLower tech)) relevantKeywords
                     then keywordScore + 0.02 else keywordScore)"

text \<open>The body of the loop of \<open>calculateRelevanceScores\<close>, for one repository.\<close>

definition scoreRepository :: "time \<Rightarrow> Repository \<Rightarrow> Repository" where
  "scoreRepository now repo =
     (let starsScore = minFloat (real_of_int (Stars repo) / 5000.0) 1.0 * 0.25;
          growthScore = minFloat (real_of_int (Stars24h (TrendMetrics repo)) / 50.0) 1.0 * 0.35;
          recencyScore = (if LastCommit repo \<noteq> 0
                          then (1.0 - minFloat (daysSince now (LastCommit repo) / 30.0) 1.0) * 0.15
                          else 0.0);
          keywordScore = keywordLoop (ToLower (Name repo)) (ToLower (Description repo))
                           relevantKeywords 0.25;
          keywordScore = techLoop (TechStack repo) keywordScore;
          keywordScore = minFloat keywordScore 0.35;
          score = starsScore + growthScore + recencyScore + keywordScore
      in repo\<lparr>RelevanceScore := minFloat score 1.0\<rparr>)"

definition calculateRelevanceScores :: "time \<Rightarrow> Repository list \<Rightarrow> Repository list" where
  "calculateRelevanceScores now repos = map (scoreRepository now) repos"

text \<open>
  \<open>ScrapeGithubTrending\<close>. \<open>basic\<close> is what \<open>scrapeBasicTrendingInfo\<close> returns and
  \<open>enrich\<close> what the GitHub lookups of \<open>enrichRepositoryDetails\<close> make of one
  repository.
\<close>

definition ScrapeGithubTrending ::
  "(Repository list \<Rightarrow> Repository list) \<Rightarrow> (Repository \<Rightarrow> Repository) \<Rightarrow> time
    \<Rightarrow> string + Repository list \<Rightarrow> string + Repository list" where
  "ScrapeGithubTrending srt enrich now basic =
     (case basic of
        Inl err \<Rightarrow> Inl err
      | Inr repos \<Rightarrow>
          (let aiRepos = map enrich (filterReposByKeywords repos AIKeywords);
               filteredRepos = applyFilterCriteria srt now aiRepos DefaultFilterCriteria
           in Inr (calculateRelevanceScores now filteredRepos)))"

section \<open>Server: snapshot, scheduled jobs and read endpoints (cmd/server/main.go)\<close>

datatype logEntry = LogInfo string | LogInfoN string int | LogError string string

record server =
  githubRepos :: "Repository list"
  researchPapers :: "Paper list"
  lastUpdated :: time
  logged :: "logEntry list"

definition zeroServer :: server where
  "zeroServer = \<lparr>githubRepos = [], researchPapers = [], lastUpdated = 0, logged = []\<rparr>"

definition logInfo :: "string \<Rightarrow> server \<Rightarrow> server" where
  "logInfo msg st = st\<lparr>logged := logged st @ [LogInfo msg]\<rparr>"

definition logInfoN :: "string \<Rightarrow> int \<Rightarrow> server \<Rightarrow> server" where
  "logInfoN format n st = st\<lparr>logged := logged st @ [LogInfoN format n]\<rparr>"

definition logError :: "string \<Rightarrow> string \<Rightarrow> server \<Rightarrow> server" where
  "logError format err st = st\<lparr>logged := logged st @ [LogError format err]\<rparr>"

text \<open>
  The two scheduled jobs. \<open>result\<close> is what the fetch function of the content type
  returns in this run, \<open>now\<close> the clock when the snapshot is replaced.
\<close>

definition scrapeJob :: "time \<Rightarrow> string + Repository list \<Rightarrow> server \<Rightarrow> server" where
  "scrapeJob now result st =
     (let st = logInfo ''Scraping GitHub trending repositories...'' st
      in case result of
           Inl err \<Rightarrow> logError ''Error scraping GitHub trending: %v'' err st
         | Inr repos \<Rightarrow>
             logInfoN ''Found %d trending repositories'' (int (length repos))
               (st\<lparr>githubRepos := repos, lastUpdated := now\<rparr>))"

definition papersJob :: "time \<Rightarrow> string + Paper list \<Rightarrow> server \<Rightarrow> server" where
  "papersJob now result st =
     (let st = logInfo ''Fetching latest AI research papers...'' st
      in case result of
           Inl err \<Rightarrow> logError ''Error fetching research papers: %v'' err st
         | Inr papers \<Rightarrow>
             logInfoN ''Found %d research papers'' (int (length papers))
               (st\<lparr>researchPapers := papers, lastUpdated := now\<rparr>))"

text \<open>The initial data collection of \<open>main\<close>, before the server starts.\<close>

definition initialCollection ::
  "time \<Rightarrow> string + Repository list \<Rightarrow> string + Paper list \<Rightarrow> server \<Rightarrow> server" where
  "initialCollection now repos papersList st =
     (let st = logInfo ''Running initial data collection...'' st;
          st = (case repos of
                  Inl err \<Rightarrow> logError ''Initial GitHub scraping error: %v'' err st
                | Inr repos \<Rightarrow>
                    logInfoN ''Initially found %d trending repositories'' (int (length repos))
                      (st\<lparr>githubRepos := repos\<rparr>));
          st = (case papersList of
                  Inl err \<Rightarrow> logError ''Initial papers fetching error: %v'' err st
                | Inr papersList \<Rightarrow>
                    logInfoN ''Initially found %d research papers'' (int (length papersList))
                      (st\<lparr>researchPapers := papersList\<rparr>))
      in st\<lparr>lastUpdated := now\<rparr>)"

text \<open>
  \<open>url.QueryEscape\<close>: letters, digits and \<open>- _ . ~\<close> stay, a space becomes \<open>+\<close>, every
  other byte becomes \<open>%\<close> and its two upper-case hexadecimal digits.
\<close>

definition unreserved :: "char \<Rightarrow> bool" where
  "unreserved c \<longleftrightarrow>
     c \<in> set ''ABCDEFGHIJKLMNOPQRSTUVWXYZabcdefghijklmnopqrstuvwxyz0123456789-_.~''"

definition upperhex :: "nat \<Rightarrow> char" where
  "upperhex n = ''0123456789ABCDEF'' ! n"

definition escapeByte :: "char \<Rightarrow> string" where
  "escapeByte c =
     (if c = CHR '' '' then ''+''
      else if unreserved c then [c]
      else [CHR ''%'', upperhex (of_char c div 16), upperhex (of_char c mod 16)])"

definition QueryEscape :: "string \<Rightarrow> string" where
  "QueryEscape s = concat (map escapeByte s)"

text \<open>The loop body of \<open>GET /api/research-articles\<close>, and the handler's response body.\<close>

definition withValidURL :: "Paper \<Rightarrow> Paper" where
  "withValidURL paper =
     (if URL' paper = []
      then paper\<lparr>URL' := ''https://arxiv.org/search/?query='' @ QueryEscape (Title paper)\<rparr>
      else paper)"

definition researchArticlesHandler :: "server \<Rightarrow> int \<times> Paper list" where
  "researchArticlesHandler st = (200, map withValidURL (researchPapers st))"

record stats =
  last_updated :: time
  trending_repos_count :: int
  research_papers_count :: int

definition statsHandler :: "server \<Rightarrow> int \<times> stats" where
  "statsHandler st =
     (200, \<lparr>last_updated = lastUpdated st,
            trending_repos_count = int (length (githubRepos st)),
            research_papers_count = int (length (researchPapers st))\<rparr>)"

text \<open>
  \<open>directSearchGitHub\<close>. \<open>github\<close> answers a search URL with the decoded items, or
  with the error of the request, of the status or of the decoding.
\<close>

record searchItem =
  FullName :: string
  HTMLURL :: string
  itemDescription :: string
  StargazersCount :: int
  itemLanguage :: string
  UpdatedAt :: time

definition searchRepository :: "searchItem \<Rightarrow> Repository" where
  "searchRepository item =
     zeroRepository\<lparr>Name := FullName item, URL := HTMLURL item,
       Description := itemDescription item, Stars := StargazersCount item,
       Language := itemLanguage item, LastCommit := UpdatedAt item,
       TrendMetrics := \<lparr>Stars24h = 0, Forks24h = 0, Views7d = 0\<rparr>,
       GainedStars := 0, RelevanceScore := 4.5\<rparr>"

definition directSearchGitHub ::
  "(string \<Rightarrow> string + searchItem list) \<Rightarrow> string \<Rightarrow> Repository list" where
  "directSearchGitHub github query =
     (let searchURL = ''https://api.github.com/search/repositories?q='' @ QueryEscape query
                        @ ''&sort=stars&order=desc''
      in case github searchURL of Inl err \<Rightarrow> [] | Inr items \<Rightarrow> map searchRepository items)"

definition searchTerms :: "(string \<times> string list) list" where
  "searchTerms =
     [
      (''cursor'',
        [''getcursor'', ''cursor-ai'', ''cursor ai'', ''cursor-editor'']),
      (''deepseek'',
        [''deepseek-ai'', ''deepseek coder'', ''deepseek-coder'', ''deepseek llm'']),
      (''hunyuan'',
        [''tencent hunyuan'', ''hunyuanvideo'', ''hunyuandit'', ''tencent-hunyuan'']),
      (''claude'',
        [''anthropic claude'', ''claude-3'', ''claude-instant'', ''anthropic-claude'']),
      (''gemini'',
        [''google gemini'', ''google-gemini'', ''gemini-pro'', ''gemini-ultra'']),
      (''llama'',
        [''meta-llama'', ''llama3'', ''llama-3'', ''llama-2'', ''meta llama'']),
      (''qwen'',
        [''alibaba qwen'', ''qwenlm'', ''qwen-vl'', ''qwen-7b'', ''aliyun qwen'']),
      (''gpt'',
        [''chatgpt'', ''gpt-4'', ''gpt-3.5'', ''openai gpt'', ''gpt-turbo'']),
      ([CHR 0xE6, CHR 0x96, CHR 0x87, CHR 0xE5, CHR 0xBF, CHR 0x83, CHR 0xE4, CHR 0xB8, CHR 0x80, CHR 0xE8, CHR 0xA8, CHR 0x80],
        [
         [CHR 0xE6, CHR 0x96, CHR 0x87, CHR 0xE5, CHR 0xBF, CHR 0x83, CHR 0xE4, CHR 0xB8, CHR 0x80, CHR 0xE8, CHR 0xA8, CHR 0x80],
         ''baidu ernie'', ''wenxin'',
         [CHR 0xE7, CHR 0x99, CHR 0xBE, CHR 0xE5, CHR 0xBA, CHR 0xA6, CHR 0xE6, CHR 0x96, CHR 0x87, CHR 0xE5, CHR 0xBF, CHR 0x83]])]"

definition isRelevant :: "string \<Rightarrow> string list \<Rightarrow> Repository \<Rightarrow> bool" where
  "isRelevant modelName terms repo =
     (let name = ToLower (Name repo); desc = ToLower (Description repo)
      in list_ex (\<lambda>term. Contains name (ToLower term) \<or> Contains desc (ToLower term)) terms
         \<or> Contains name (ToLower modelName))"

datatype modelResponse = BadRequest string | ModelRepos string "Repository list"

definition searchModelReposHandler ::
  "(string \<Rightarrow> string + searchItem list) \<Rightarrow> string \<Rightarrow> modelResponse" where
  "searchModelReposHandler github modelName =
     (if modelName = [] then BadRequest ''Model name is required''
      else (let terms = (case map_of searchTerms modelName of
                           Some terms \<Rightarrow> terms | None \<Rightarrow> [modelName]);
                query = Join terms '' OR '' @ '' AI language model'';
                repos = directSearchGitHub github query
            in ModelRepos modelName (filter (isRelevant modelName terms) repos)))"

section \<open>Example inputs\<close>

definition exampleItem :: searchItem where
  "exampleItem =
     \<lparr>FullName = ''openai/gpt-2'', HTMLURL = ''https://github.com/openai/gpt-2'',
      itemDescription = ''Language models'', StargazersCount = 20000,
      itemLanguage = ''Python'', UpdatedAt = 0\<rparr>"

definition exampleGithub :: "string \<Rightarrow> string + searchItem list" where
  "exampleGithub searchURL = Inr [exampleItem]"

text \<open>An instant in October 2026, and a paper without a URL.\<close>

definition exampleNow :: time where
  "exampleNow = 63929001600000000000"

definition examplePaper :: Paper where
  "examplePaper = zeroPaper\<lparr>Title := ''A b&c'', NoveltyScore := 4\<rparr>"

definition failedSources :: sources where
  "failedSources =
     \<lparr>papersWithCode = Inl ''timeout'', hackerNews = Inl ''timeout'', devTo = Inl ''timeout'',
      csdn = Inl ''timeout''\<rparr>"

definition exampleServer :: server where
  "exampleServer =
     \<lparr>githubRepos = [repoA],
      researchPapers = [examplePaper, examplePaper\<lparr>URL' := ''https://example.org/p''\<rparr>],
      lastUpdated = 1000, logged = []\<rparr>"

text \<open>
  A Dev.to article with a reading time of 25 minutes, alone among the sources, and the
  paper that \<open>FetchTopPapers\<close> returns for it when every draw of the generator is 0.
\<close>

definition exampleArticle :: devToArticle where
  "exampleArticle =
     \<lparr>dtTitle = ''A new agent'', dtURL = ''https://dev.to/a'', dtPublishedAt = exampleNow,
      dtDescription = [], dtReactionsCount = 7, dtReadingTime = 25, dtAuthorName = ''Ann''\<rparr>"

definition devToSources :: sources where
  "devToSources =
     \<lparr>papersWithCode = Inl ''timeout'', hackerNews = Inl ''timeout'',
      devTo = Inr [exampleArticle], csdn = Inl ''timeout''\<rparr>"

definition exampleEnriched :: Paper where
  "exampleEnriched =
     \<lparr>Title = ''A new agent'', URL' = ''https://dev.to/a'', Authors' = [''Ann''],
      PublishedDate = exampleNow, Source' = ''Dev.to'', Summary = [], CitationCount = 4,
      CitationVelocity = 4, NoveltyScore = 3.3, ReproducibilityScore = 2.5,
      CoreContributions = []\<rparr>"

text \<open>One \<open>sort.Slice\<close> by a descending key: the stable one.\<close>

definition sortDescending :: "('a \<Rightarrow> real) \<Rightarrow> 'a list \<Rightarrow> 'a list" where
  "sortDescending f xs = rev (sort_key f xs)"

text \<open>A paper that already has core contributions and no novelty score yet.\<close>

definition unscoredPaper :: Paper where
  "unscoredPaper =
     zeroPaper\<lparr>Title := ''Agents'', PublishedDate := exampleNow, CitationCount := 5,
       CitationVelocity := 5, ReproducibilityScore := 3,
       CoreContributions := [''A study of agents.'']\<rparr>"

text \<open>
  Fifty repositories below the minimum relevance score and one above it: the filter
  criteria leave one of the fifty-one.
\<close>

definition lowRepo :: Repository where
  "lowRepo = repoA\<lparr>RelevanceScore := 0\<rparr>"

definition highRepo :: Repository where
  "highRepo = repoC\<lparr>RelevanceScore := 0.5\<rparr>"

definition manyRepos :: "Repository list" where
  "manyRepos = replicate 50 lowRepo @ [highRepo]"

section \<open>Auxiliary predicates\<close>

text \<open>The invariant of the map under construction: keys are distinct, and each entry is
  stored under its own \<open>Name\<close>.\<close>

definition keyed :: "repoMap \<Rightarrow> bool" where
  "keyed m \<longleftrightarrow> distinct (map fst m) \<and> (\<forall>(k, v)\<in>set m. Name v = k)"

text \<open>The paper that the loop body hands to the last step, and the generator then.\<close>

definition preEnhance :: "time \<Rightarrow> Paper \<Rightarrow> rand_src \<Rightarrow> Paper \<times> rand_src" where
  "preEnhance now paper g0 =
     (let (p1, g1) = (if CitationCount paper = 0
                      then (paper\<lparr>CitationCount := Intn 100 g0 + 1\<rparr>, rnext g0)
                      else (paper, g0));
          p2 = (if CitationVelocity p1 = 0
                then p1\<lparr>CitationVelocity :=
                       real_of_int (CitationCount p1) / real_of_int (daysSincePublication now p1)\<rparr>
                else p1);
          (p3, g3) = (if NoveltyScore p2 = 0
                      then (p2\<lparr>NoveltyScore := 3.0 + Float64 g1 * 2.0\<rparr>, rnext g1)
                      else (p2, g1))
      in (if ReproducibilityScore p3 = 0
                      then (p3\<lparr>ReproducibilityScore := 2.0 + Float64 g3 * 3.0\<rparr>, rnext g3)
                      else (p3, g3)))"

definition fresh :: "Paper list \<Rightarrow> bool" where
  "fresh papers \<longleftrightarrow> (\<forall>p\<in>set papers. CoreContributions p = [])"

text \<open>The papers that \<open>FetchTopPapers\<close> collects from its two sources.\<close>

definition collected :: "time \<Rightarrow> rand_src \<Rightarrow> sources \<Rightarrow> Paper list" where
  "collected now g0 src =
     (case fetchPapersWithCode now g0 (papersWithCode src) of Inl err \<Rightarrow> [] | Inr papers \<Rightarrow> papers)
     @ (case FetchOtherBlogPosts now src of Inl err \<Rightarrow> [] | Inr blogPosts \<Rightarrow> blogPosts)"

section \<open>Properties of the merge\<close>

lemma set_update_subset: "set (AList.update k v m) \<subseteq> insert (k, v) (set m)"
  by (induction m) auto

lemma keyed_Nil: "keyed []"
  by (simp add: keyed_def)

lemma keyed_update: "keyed m \<Longrightarrow> keyed (AList.update (Name r) r m)"
  unfolding keyed_def
  using set_update_subset [of "Name r" r m] by (auto simp: distinct_update)

lemma keyed_addFirst: "keyed m \<Longrightarrow> keyed (addFirst rs m)"
  unfolding addFirst_def
  by (induction rs arbitrary: m) (simp_all add: keyed_update)

lemma keyed_addSecond: "keyed m \<Longrightarrow> keyed (addSecond rs m)"
  unfolding addSecond_def
  by (induction rs arbitrary: m) (simp_all add: keyed_update)

lemma keyed_merge_map: "keyed (addSecond r2 (addFirst r1 []))"
  by (simp add: keyed_addSecond keyed_addFirst keyed_Nil)

lemma keyed_distinct_names: "keyed m \<Longrightarrow> distinct (map Name (map snd m))"
  unfolding keyed_def
  by (induction m) (auto simp: image_iff, force)

lemma range_order_distinct_names:
  assumes "range_order ord" "keyed m"
  shows "distinct (map Name (map snd (ord m)))"
proof -
  have "mset (ord m) = mset m"
    using assms(1) by (simp add: range_order_def)
  then have "mset (map (Name \<circ> snd) (ord m)) = mset (map (Name \<circ> snd) m)"
    by simp
  moreover have "distinct (map (Name \<circ> snd) m)"
    using keyed_distinct_names [OF assms(2)] by simp
  ultimately have "distinct (map (Name \<circ> snd) (ord m))"
    by (metis mset_eq_imp_distinct_iff)
  then show ?thesis by simp
qed


lemma range_order_rev: "range_order rev"
  by (simp add: range_order_def)





































text \<open>
  C4. For every pair of input collections and every iteration order of the map, no two
  repositories returned by \<open>mergeRepositories\<close> share a \<open>Name\<close>.
\<close>

theorem mergeRepositories_unique_names:
  assumes "range_order ord"
  shows "distinct (map Name (mergeRepositories ord repos1 repos2))"
  unfolding mergeRepositories_def
  by (rule range_order_distinct_names [OF assms keyed_merge_map])

theorem mergeRepositories_unique_names_witness:
  "distinct (map Name (mergeRepositories rev [repoA, repoC] [repoB]))"
  using mergeRepositories_unique_names [OF range_order_rev] .

section \<open>Properties of the paper pipeline\<close>

lemma termScore_ge: "score \<le> termScore paper terms score"
proof (induction terms arbitrary: score)
  case Nil
  show ?case by simp
next
  case (Cons t ts)
  let ?s1 = "if containsAny (Title paper) t then score + 0.3 else score"
  let ?s2 = "if Summary paper \<noteq> [] \<and> containsAny (Summary paper) t then ?s1 + 0.2 else ?s1"
  have "score \<le> ?s2" by simp
  also have "?s2 \<le> termScore paper ts ?s2" by (rule Cons)
  finally show ?case by (simp add: Let_def)
qed

lemma capScore_range: "lo \<le> 5 \<Longrightarrow> lo \<le> score \<Longrightarrow> lo \<le> capScore score \<and> capScore score \<le> 5"
  by (simp add: capScore_def)

lemma novelty_range:
  "3 \<le> capScore (termScore q noveltyTerms 3.0) \<and> capScore (termScore q noveltyTerms 3.0) \<le> 5"
  using capScore_range [of 3 "termScore q noveltyTerms 3.0"] termScore_ge [of "3.0" q noveltyTerms]
  by simp

lemma enhance_novelty:
  "3 \<le> NoveltyScore (fst (enhancePaperWithDetails now paper g))
   \<and> NoveltyScore (fst (enhancePaperWithDetails now paper g)) \<le> 5"
  unfolding enhancePaperWithDetails_def Let_def
  using novelty_range by (simp split del: if_split)

lemma enhance_core:
  "CoreContributions (fst (enhancePaperWithDetails now paper g)) = coreContributions (Summary paper)"
  unfolding enhancePaperWithDetails_def Let_def
  by (simp split del: if_split)


lemma Float64_range: "0 \<le> Float64 g \<and> Float64 g < 1"
proof -
  have "real (g 0 mod 2 ^ 53) < 2 ^ 53"
    by (metis mod_less_divisor of_nat_less_iff of_nat_numeral of_nat_power zero_less_numeral zero_less_power)
  then show ?thesis
    by (simp add: Float64_def)
qed

lemma enrichPaper_preEnhance:
  "enrichPaper now paper g =
     (if CoreContributions (fst (preEnhance now paper g)) = []
      then enhancePaperWithDetails now (fst (preEnhance now paper g)) (snd (preEnhance now paper g))
      else preEnhance now paper g)"
  unfolding enrichPaper_def preEnhance_def Let_def
  by (simp split: prod.splits if_splits)

lemma preEnhance_core: "CoreContributions (fst (preEnhance now paper g)) = CoreContributions paper"
  unfolding preEnhance_def Let_def
  by (simp split: prod.splits if_splits)

lemma preEnhance_novelty:
  "NoveltyScore (fst (preEnhance now paper g)) =
     (if NoveltyScore paper = 0
      then 3 + Float64 (if CitationCount paper = 0 then rnext g else g) * 2
      else NoveltyScore paper)"
  unfolding preEnhance_def Let_def
  by (simp split: prod.splits if_splits)


lemma enrichPaper_novelty:
  assumes "CoreContributions paper = [] \<or> (0 \<le> NoveltyScore paper \<and> NoveltyScore paper \<le> 5)"
  shows "0 \<le> NoveltyScore (fst (enrichPaper now paper g))
    \<and> NoveltyScore (fst (enrichPaper now paper g)) \<le> 5"
proof (cases "CoreContributions paper = []")
  case True
  then have "enrichPaper now paper g
      = enhancePaperWithDetails now (fst (preEnhance now paper g)) (snd (preEnhance now paper g))"
    by (simp add: enrichPaper_preEnhance preEnhance_core)
  then show ?thesis
    using enhance_novelty [of now "fst (preEnhance now paper g)" "snd (preEnhance now paper g)"]
    by simp
next
  case False
  with assms have r: "0 \<le> NoveltyScore paper" "NoveltyScore paper \<le> 5"
    by simp_all
  from False have "enrichPaper now paper g = preEnhance now paper g"
    by (simp add: enrichPaper_preEnhance preEnhance_core)
  then have "NoveltyScore (fst (enrichPaper now paper g)) =
     (if NoveltyScore paper = 0
      then 3 + Float64 (if CitationCount paper = 0 then rnext g else g) * 2
      else NoveltyScore paper)"
    by (simp only: preEnhance_novelty)
  then show ?thesis
    using r Float64_range [of "rnext g"] Float64_range [of g]
    by (simp split: if_splits)
qed

lemma enrichPapers_novelty:
  assumes "\<forall>p\<in>set papers. CoreContributions p = [] \<or> (0 \<le> NoveltyScore p \<and> NoveltyScore p \<le> 5)"
  shows "\<forall>q\<in>set (enrichPapersWithScores now g papers). 0 \<le> NoveltyScore q \<and> NoveltyScore q \<le> 5"
  using assms
proof (induction papers arbitrary: g)
  case Nil
  show ?case by simp
next
  case (Cons p ps)
  obtain q g' where e: "enrichPaper now p g = (q, g')"
    by (cases "enrichPaper now p g")
  have "0 \<le> NoveltyScore (fst (enrichPaper now p g)) \<and> NoveltyScore (fst (enrichPaper now p g)) \<le> 5"
    using Cons.prems by (intro enrichPaper_novelty) simp
  then have q: "0 \<le> NoveltyScore q \<and> NoveltyScore q \<le> 5"
    by (simp add: e)
  have "\<forall>q\<in>set (enrichPapersWithScores now g' ps). 0 \<le> NoveltyScore q \<and> NoveltyScore q \<le> 5"
    using Cons.prems by (intro Cons.IH) simp
  with q show ?case
    by (simp add: e)
qed

lemma zeroPaper_core: "CoreContributions zeroPaper = []"
  by (simp add: zeroPaper_def)

lemma pwcLoop_core: "\<forall>p\<in>set (pwcLoop now g results). CoreContributions p = []"
  by (induction results arbitrary: g) (simp_all add: Let_def zeroPaper_core split: prod.splits)

lemma hnLoop_core:
  "\<forall>p\<in>set results. CoreContributions p = [] \<Longrightarrow>
   \<forall>p\<in>set (hnLoop now stories results). CoreContributions p = []"
  by (induction now stories results rule: hnLoop.induct)
     (simp_all add: Let_def hnPaper_def zeroPaper_core)

lemma csdnLoop_core:
  "\<forall>p\<in>set results. CoreContributions p = [] \<Longrightarrow>
   \<forall>p\<in>set (csdnLoop now titles links results). CoreContributions p = []"
  by (induction now titles links results rule: csdnLoop.induct)
     (simp_all add: Let_def csdnPaper_def zeroPaper_core)

lemma devTo_core: "CoreContributions (devToPaper now article) = []"
  by (simp add: devToPaper_def zeroPaper_core)


lemma fresh_Nil: "fresh []"
  by (simp add: fresh_def)

lemma fresh_append: "fresh (xs @ ys) \<longleftrightarrow> fresh xs \<and> fresh ys"
  by (auto simp: fresh_def)

lemma fetchPapersWithCode_fresh: "fetchPapersWithCode now g response = Inr papers \<Longrightarrow> fresh papers"
  unfolding fetchPapersWithCode_def fresh_def
  using pwcLoop_core by (auto split: sum.splits)

lemma fetchHackerNews_fresh: "fetchHackerNewsAIArticles now response = Inr papers \<Longrightarrow> fresh papers"
  unfolding fetchHackerNewsAIArticles_def fresh_def
  using hnLoop_core [of "[]"] by (auto split: sum.splits)

lemma fetchDevTo_fresh: "fetchDevToAIArticles now response = Inr papers \<Longrightarrow> fresh papers"
  unfolding fetchDevToAIArticles_def fresh_def
  by (auto simp: devTo_core split: sum.splits)

lemma fetchCSDN_fresh: "fetchCSDNArticles now response = Inr papers \<Longrightarrow> fresh papers"
  unfolding fetchCSDNArticles_def fresh_def
  using csdnLoop_core [of "[]"] by (auto split: sum.splits prod.splits)

lemma addSource_fresh:
  assumes "fresh (fst acc)" and "\<And>papers. fetched = Inr papers \<Longrightarrow> fresh papers"
  shows "fresh (fst (addSource name fetched acc))"
  using assms by (cases fetched) (simp_all add: addSource_def fresh_append)

lemma FetchOtherBlogPosts_fresh:
  assumes "FetchOtherBlogPosts now src = Inr papers"
  shows "fresh papers"
proof -
  let ?a1 = "addSource ''HackerNews'' (fetchHackerNewsAIArticles now (hackerNews src)) ([], [])"
  let ?a2 = "addSource ''Dev.to'' (fetchDevToAIArticles now (devTo src)) ?a1"
  let ?a3 = "addSource ''CSDN'' (fetchCSDNArticles now (csdn src)) ?a2"
  have "fresh (fst ?a1)"
    by (rule addSource_fresh) (simp_all add: fresh_Nil fetchHackerNews_fresh)
  then have "fresh (fst ?a2)"
    by (rule addSource_fresh) (rule fetchDevTo_fresh)
  then have f: "fresh (fst ?a3)"
    by (rule addSource_fresh) (rule fetchCSDN_fresh)
  from assms have "papers = fst ?a3"
    by (simp add: FetchOtherBlogPosts_def Let_def split: prod.splits if_splits)
  with f show ?thesis by simp
qed

lemma collected_fresh: "fresh (collected now g0 src)"
  unfolding collected_def fresh_append
  by (auto simp: fresh_Nil fetchPapersWithCode_fresh FetchOtherBlogPosts_fresh split: sum.splits)

lemma FetchTopPapers_collected:
  "FetchTopPapers srt now g0 g src =
     (if collected now g0 src = []
      then (case (fetchPapersWithCode now g0 (papersWithCode src), FetchOtherBlogPosts now src) of
              (Inl e1, Inl e2) \<Rightarrow> Inl (''failed to fetch papers from all sources: ''
                   @ Join [''Papers with Code: '' @ e1, ''Blog posts: '' @ e2] ''; '')
            | (Inl e1, Inr _) \<Rightarrow> Inl (''failed to fetch papers from all sources: ''
                   @ Join [''Papers with Code: '' @ e1] ''; '')
            | (Inr _, Inl e2) \<Rightarrow> Inl (''failed to fetch papers from all sources: ''
                   @ Join [''Blog posts: '' @ e2] ''; '')
            | (Inr _, Inr _) \<Rightarrow> Inl ''no papers found from any source'')
      else Inr (srt (enrichPapersWithScores now g (collected now g0 src))))"
  unfolding FetchTopPapers_def collected_def Let_def
  by (simp split: sum.splits prod.splits)

section \<open>Properties of the server\<close>

lemma searchRepository_fields:
  "RelevanceScore (searchRepository item) = 4.5 \<and> GainedStars (searchRepository item) = 0
   \<and> Stars24h (TrendMetrics (searchRepository item)) = 0"
  by (simp add: searchRepository_def)

lemma directSearchGitHub_fields:
  "r \<in> set (directSearchGitHub github query) \<Longrightarrow>
   RelevanceScore r = 4.5 \<and> GainedStars r = 0 \<and> Stars24h (TrendMetrics r) = 0"
  unfolding directSearchGitHub_def Let_def
  using searchRepository_fields by (cases "github (''https://api.github.com/search/repositories?q='' @ QueryEscape query
                        @ ''&sort=stars&order=desc'')") auto

text \<open>
  C10. Every repository that \<open>directSearchGitHub\<close> builds, and so every repository in
  the response of \<open>GET /api/model-repos/:model\<close>, has the relevance score 4.5, outside
  \<open>[0, 1]\<close>, and \<open>GainedStars\<close> and \<open>Stars24h\<close> 0.
\<close>

theorem searchModelRepos_scores:
  "(\<forall>r\<in>set (directSearchGitHub github query).
      RelevanceScore r = 4.5 \<and> GainedStars r = 0 \<and> Stars24h (TrendMetrics r) = 0
      \<and> \<not> (0 \<le> RelevanceScore r \<and> RelevanceScore r \<le> 1))
   \<and> (\<forall>repos. searchModelReposHandler github modelName = ModelRepos modelName repos \<longrightarrow>
        (\<forall>r\<in>set repos.
           RelevanceScore r = 4.5 \<and> GainedStars r = 0 \<and> Stars24h (TrendMetrics r) = 0
           \<and> \<not> (0 \<le> RelevanceScore r \<and> RelevanceScore r \<le> 1)))"
proof (intro conjI allI impI ballI)
  fix r assume "r \<in> set (directSearchGitHub github query)"
  then have "RelevanceScore r = 4.5 \<and> GainedStars r = 0 \<and> Stars24h (TrendMetrics r) = 0"
    by (rule directSearchGitHub_fields)
  then show "RelevanceScore r = 4.5" "GainedStars r = 0" "Stars24h (TrendMetrics r) = 0"
    "\<not> (0 \<le> RelevanceScore r \<and> RelevanceScore r \<le> 1)"
    by simp_all
next
  fix repos r
  assume h: "searchModelReposHandler github modelName = ModelRepos modelName repos"
    and r: "r \<in> set repos"
  define terms where
    "terms = (case map_of searchTerms modelName of Some terms \<Rightarrow> terms | None \<Rightarrow> [modelName])"
  define query where "query = Join terms '' OR '' @ '' AI language model''"
  from h have "repos = filter (isRelevant modelName terms) (directSearchGitHub github query)"
    by (simp add: searchModelReposHandler_def Let_def terms_def query_def split: if_splits)
  with r have "r \<in> set (directSearchGitHub github query)"
    by simp
  then have "RelevanceScore r = 4.5 \<and> GainedStars r = 0 \<and> Stars24h (TrendMetrics r) = 0"
    by (rule directSearchGitHub_fields)
  then show "RelevanceScore r = 4.5" "GainedStars r = 0" "Stars24h (TrendMetrics r) = 0"
    "\<not> (0 \<le> RelevanceScore r \<and> RelevanceScore r \<le> 1)"
    by simp_all
qed

lemma example_search:
  "searchModelReposHandler exampleGithub ''gpt'' = ModelRepos ''gpt'' [searchRepository exampleItem]"
  by (simp add: searchModelReposHandler_def Let_def searchTerms_def directSearchGitHub_def
      exampleGithub_def isRelevant_def searchRepository_def exampleItem_def ToLower_def
      toLowerChar_def)


theorem searchModelRepos_scores_witness:
  "searchModelReposHandler exampleGithub ''gpt'' = ModelRepos ''gpt'' [searchRepository exampleItem]
   \<and> directSearchGitHub exampleGithub ''gpt'' = [searchRepository exampleItem]
   \<and> RelevanceScore (searchRepository exampleItem) = 4.5
   \<and> GainedStars (searchRepository exampleItem) = 0
   \<and> Stars24h (TrendMetrics (searchRepository exampleItem)) = 0
   \<and> \<not> (0 \<le> RelevanceScore (searchRepository exampleItem)
        \<and> RelevanceScore (searchRepository exampleItem) \<le> 1)"
proof -
  have d: "directSearchGitHub exampleGithub ''gpt'' = [searchRepository exampleItem]"
    by (simp add: directSearchGitHub_def exampleGithub_def)
  show ?thesis
    using searchModelRepos_scores [of exampleGithub "''gpt''" "''gpt''"] example_search d
    by simp
qed

lemma HasPrefix_refl: "HasPrefix s s"
  by (induction s) simp_all

lemma Contains_refl: "Contains s s"
  by (cases s) (simp_all add: HasPrefix_refl)

lemma Contains_append: "Contains (pre @ s) s"
proof (induction pre)
  case Nil
  show ?case by (simp add: Contains_refl)
next
  case (Cons c pre)
  then show ?case by simp
qed

lemma withValidURL_empty:
  assumes "URL' paper = []"
  shows "withValidURL paper
      = paper\<lparr>URL' := ''https://arxiv.org/search/?query='' @ QueryEscape (Title paper)\<rparr>"
  using assms by (simp add: withValidURL_def)

text \<open>
  C8. The response of \<open>GET /api/research-articles\<close> has status 200 and holds the
  papers of the snapshot in their order; a paper whose URL is empty is returned with a
  non-empty URL that contains \<open>url.QueryEscape\<close> of its title and with its other fields
  as they are, and a paper whose URL is not empty is returned unchanged.
\<close>

theorem researchArticles_urls:
  "fst (researchArticlesHandler st) = 200
   \<and> length (snd (researchArticlesHandler st)) = length (researchPapers st)
   \<and> (\<forall>i < length (researchPapers st).
        (URL' (researchPapers st ! i) = [] \<longrightarrow>
           URL' (snd (researchArticlesHandler st) ! i) \<noteq> []
           \<and> Contains (URL' (snd (researchArticlesHandler st) ! i))
                (QueryEscape (Title (researchPapers st ! i)))
           \<and> snd (researchArticlesHandler st) ! i
               = (researchPapers st ! i)\<lparr>URL' := URL' (snd (researchArticlesHandler st) ! i)\<rparr>)
        \<and> (URL' (researchPapers st ! i) \<noteq> [] \<longrightarrow>
             snd (researchArticlesHandler st) ! i = researchPapers st ! i))"
proof (intro conjI allI impI)
  show "fst (researchArticlesHandler st) = 200"
    by (simp add: researchArticlesHandler_def)
  show "length (snd (researchArticlesHandler st)) = length (researchPapers st)"
    by (simp add: researchArticlesHandler_def)
next
  fix i assume i: "i < length (researchPapers st)"
  let ?p = "researchPapers st ! i"
  have out: "snd (researchArticlesHandler st) ! i = withValidURL ?p"
    using i by (simp add: researchArticlesHandler_def)
  {
    assume e: "URL' ?p = []"
    have w: "withValidURL ?p
        = ?p\<lparr>URL' := ''https://arxiv.org/search/?query='' @ QueryEscape (Title ?p)\<rparr>"
      by (rule withValidURL_empty [OF e])
    show "URL' (snd (researchArticlesHandler st) ! i) \<noteq> []"
      unfolding out w by simp
    have "Contains (''https://arxiv.org/search/?query='' @ QueryEscape (Title ?p))
        (QueryEscape (Title ?p))"
      by (rule Contains_append)
    then show "Contains (URL' (snd (researchArticlesHandler st) ! i)) (QueryEscape (Title ?p))"
      unfolding out w by simp
    show "snd (researchArticlesHandler st) ! i
        = ?p\<lparr>URL' := URL' (snd (researchArticlesHandler st) ! i)\<rparr>"
      unfolding out w by simp
  }
  {
    assume "URL' ?p \<noteq> []"
    then show "snd (researchArticlesHandler st) ! i = ?p"
      unfolding out by (simp add: withValidURL_def)
  }
qed

lemma QueryEscape_example: "QueryEscape ''A b&c'' = ''A+b%26c''"
  by (simp add: QueryEscape_def escapeByte_def unreserved_def upperhex_def)


theorem researchArticles_urls_witness:
  "0 < length (researchPapers exampleServer) \<and> 1 < length (researchPapers exampleServer)
   \<and> URL' (researchPapers exampleServer ! 0) = []
   \<and> URL' (researchPapers exampleServer ! 1) \<noteq> []
   \<and> URL' (snd (researchArticlesHandler exampleServer) ! 0)
       = ''https://arxiv.org/search/?query=A+b%26c''
   \<and> Contains (URL' (snd (researchArticlesHandler exampleServer) ! 0)) (QueryEscape ''A b&c'')
   \<and> snd (researchArticlesHandler exampleServer) ! 1 = researchPapers exampleServer ! 1"
proof -
  have p: "researchPapers exampleServer
      = [examplePaper, examplePaper\<lparr>URL' := ''https://example.org/p''\<rparr>]"
    by (simp add: exampleServer_def)
  have u: "URL' examplePaper = []" and t: "Title examplePaper = ''A b&c''"
    by (simp_all add: examplePaper_def zeroPaper_def)
  note inst = researchArticles_urls [of exampleServer]
  from inst have a: "\<forall>i < length (researchPapers exampleServer).
        (URL' (researchPapers exampleServer ! i) = [] \<longrightarrow>
           URL' (snd (researchArticlesHandler exampleServer) ! i) \<noteq> []
           \<and> Contains (URL' (snd (researchArticlesHandler exampleServer) ! i))
                (QueryEscape (Title (researchPapers exampleServer ! i)))
           \<and> snd (researchArticlesHandler exampleServer) ! i
               = (researchPapers exampleServer ! i)\<lparr>URL' := URL' (snd (researchArticlesHandler exampleServer) ! i)\<rparr>)
        \<and> (URL' (researchPapers exampleServer ! i) \<noteq> [] \<longrightarrow>
             snd (researchArticlesHandler exampleServer) ! i = researchPapers exampleServer ! i)"
    by simp
  have l0: "0 < length (researchPapers exampleServer)" and l1: "1 < length (researchPapers exampleServer)"
    by (simp_all add: p)
  have e0: "URL' (researchPapers exampleServer ! 0) = []"
    by (simp add: p u)
  have e1: "URL' (researchPapers exampleServer ! 1) \<noteq> []"
    by (simp add: p)
  from a l0 e0 have c: "Contains (URL' (snd (researchArticlesHandler exampleServer) ! 0))
      (QueryEscape (Title (researchPapers exampleServer ! 0)))"
    by blast
  from a l1 e1 have s: "snd (researchArticlesHandler exampleServer) ! 1 = researchPapers exampleServer ! 1"
    by blast
  have v: "URL' (snd (researchArticlesHandler exampleServer) ! 0)
       = ''https://arxiv.org/search/?query=A+b%26c''"
    by (simp add: researchArticlesHandler_def p withValidURL_def u t QueryEscape_example)
  from c have c': "Contains (URL' (snd (researchArticlesHandler exampleServer) ! 0)) (QueryEscape ''A b&c'')"
    by (simp add: p t)
  from l0 l1 e0 e1 v c' s show ?thesis
    by simp
qed

lemma initialCollection_lastUpdated:
  "lastUpdated (initialCollection now repos papersList st) = now"
  by (simp add: initialCollection_def Let_def)

text \<open>
  C9, at a cold start where both initial collections fail: \<open>GET /api/stats\<close> answers
  200 with both counts 0, but \<open>last_updated\<close> is the instant at which \<open>main\<close> finished
  the initial collection, not the zero time.
\<close>

theorem cold_start_stats:
  "statsHandler (initialCollection exampleNow (Inl ''timeout'') (Inl ''timeout'') zeroServer)
     = (200, \<lparr>last_updated = exampleNow, trending_repos_count = 0, research_papers_count = 0\<rparr>)
   \<and> exampleNow \<noteq> 0"
  by (simp add: statsHandler_def initialCollection_def Let_def logInfo_def logError_def
      zeroServer_def exampleNow_def)

lemma scrapeJob_failed:
  "scrapeJob now (Inl err) st
     = st\<lparr>logged := logged st @ [LogInfo ''Scraping GitHub trending repositories...'',
                                   LogError ''Error scraping GitHub trending: %v'' err]\<rparr>"
  by (simp add: scrapeJob_def Let_def logInfo_def logError_def)

lemma papersJob_failed:
  "papersJob now (Inl err) st
     = st\<lparr>logged := logged st @ [LogInfo ''Fetching latest AI research papers...'',
                                   LogError ''Error fetching research papers: %v'' err]\<rparr>"
  by (simp add: papersJob_def Let_def logInfo_def logError_def)

lemma FetchTopPapers_nothing:
  assumes "\<forall>ps. fetchPapersWithCode now g0 (papersWithCode src) = Inr ps \<longrightarrow> ps = []"
    and "\<forall>ps. FetchOtherBlogPosts now src = Inr ps \<longrightarrow> ps = []"
  shows "\<exists>err. FetchTopPapers srt now g0 g src = Inl err"
proof -
  have "collected now g0 src = []"
    using assms by (simp add: collected_def split: sum.splits)
  then show ?thesis
    by (simp add: FetchTopPapers_collected split: sum.splits)
qed

text \<open>
  C2. A scheduled run whose fetch function returns an error leaves \<open>githubRepos\<close>,
  \<open>researchPapers\<close> and \<open>lastUpdated\<close> as they were and logs the error;
  \<open>ScrapeGithubTrending\<close> returns the error of its scraper, and \<open>FetchTopPapers\<close>
  returns an error when none of its sources yields a paper.
\<close>

theorem failed_run_keeps_snapshot:
  "(scraped = Inl err \<longrightarrow>
      githubRepos (scrapeJob now scraped st) = githubRepos st
      \<and> researchPapers (scrapeJob now scraped st) = researchPapers st
      \<and> lastUpdated (scrapeJob now scraped st) = lastUpdated st
      \<and> LogError ''Error scraping GitHub trending: %v'' err \<in> set (logged (scrapeJob now scraped st)))
   \<and> (fetched = Inl err \<longrightarrow>
      githubRepos (papersJob now fetched st) = githubRepos st
      \<and> researchPapers (papersJob now fetched st) = researchPapers st
      \<and> lastUpdated (papersJob now fetched st) = lastUpdated st
      \<and> LogError ''Error fetching research papers: %v'' err \<in> set (logged (papersJob now fetched st)))
   \<and> (basic = Inl err \<longrightarrow> ScrapeGithubTrending srtR enrich now basic = Inl err)
   \<and> ((\<forall>ps. fetchPapersWithCode now g0 (papersWithCode src) = Inr ps \<longrightarrow> ps = [])
        \<and> (\<forall>ps. FetchOtherBlogPosts now src = Inr ps \<longrightarrow> ps = [])
      \<longrightarrow> (\<exists>e. FetchTopPapers srt now g0 g src = Inl e))"
proof (intro conjI impI)
  assume "scraped = Inl err"
  then show "githubRepos (scrapeJob now scraped st) = githubRepos st"
    "researchPapers (scrapeJob now scraped st) = researchPapers st"
    "lastUpdated (scrapeJob now scraped st) = lastUpdated st"
    "LogError ''Error scraping GitHub trending: %v'' err \<in> set (logged (scrapeJob now scraped st))"
    by (simp_all add: scrapeJob_failed)
next
  assume "fetched = Inl err"
  then show "githubRepos (papersJob now fetched st) = githubRepos st"
    "researchPapers (papersJob now fetched st) = researchPapers st"
    "lastUpdated (papersJob now fetched st) = lastUpdated st"
    "LogError ''Error fetching research papers: %v'' err \<in> set (logged (papersJob now fetched st))"
    by (simp_all add: papersJob_failed)
next
  assume "basic = Inl err"
  then show "ScrapeGithubTrending srtR enrich now basic = Inl err"
    by (simp add: ScrapeGithubTrending_def)
next
  assume "(\<forall>ps. fetchPapersWithCode now g0 (papersWithCode src) = Inr ps \<longrightarrow> ps = [])
        \<and> (\<forall>ps. FetchOtherBlogPosts now src = Inr ps \<longrightarrow> ps = [])"
  then show "\<exists>e. FetchTopPapers srt now g0 g src = Inl e"
    using FetchTopPapers_nothing by blast
qed

lemma FetchTopPapers_failed:
  "FetchTopPapers srt now g0 g failedSources
     = Inl (''failed to fetch papers from all sources: Papers with Code: timeout; ''
            @ ''Blog posts: failed to fetch articles from all sources: ''
            @ ''HackerNews: timeout; Dev.to: timeout; CSDN: timeout'')"
  by (simp add: FetchTopPapers_def Let_def fetchPapersWithCode_def FetchOtherBlogPosts_def
      fetchHackerNewsAIArticles_def fetchDevToAIArticles_def fetchCSDNArticles_def
      addSource_def failedSources_def)


theorem failed_run_keeps_snapshot_witness:
  "githubRepos (scrapeJob exampleNow (Inl ''timeout'') exampleServer) = githubRepos exampleServer
   \<and> lastUpdated (scrapeJob exampleNow (Inl ''timeout'') exampleServer) = 1000
   \<and> LogError ''Error scraping GitHub trending: %v'' ''timeout''
        \<in> set (logged (scrapeJob exampleNow (Inl ''timeout'') exampleServer))
   \<and> researchPapers (papersJob exampleNow (FetchTopPapers id exampleNow (\<lambda>i. 0) (\<lambda>i. 0) failedSources)
         exampleServer) = researchPapers exampleServer
   \<and> lastUpdated (papersJob exampleNow (FetchTopPapers id exampleNow (\<lambda>i. 0) (\<lambda>i. 0) failedSources)
         exampleServer) = 1000
   \<and> ScrapeGithubTrending id id exampleNow (Inl ''timeout'') = Inl ''timeout''
   \<and> (\<exists>e. FetchTopPapers id exampleNow (\<lambda>i. 0) (\<lambda>i. 0) failedSources = Inl e)"
proof -
  let ?f = "FetchTopPapers id exampleNow (\<lambda>i. 0) (\<lambda>i. 0) failedSources"
  let ?e = "''failed to fetch papers from all sources: Papers with Code: timeout; ''
            @ ''Blog posts: failed to fetch articles from all sources: ''
            @ ''HackerNews: timeout; Dev.to: timeout; CSDN: timeout''"
  have f: "?f = Inl ?e"
    by (rule FetchTopPapers_failed)
  have none: "(\<forall>ps. fetchPapersWithCode exampleNow (\<lambda>i. 0) (papersWithCode failedSources) = Inr ps
                 \<longrightarrow> ps = [])
      \<and> (\<forall>ps. FetchOtherBlogPosts exampleNow failedSources = Inr ps \<longrightarrow> ps = [])"
    by (simp add: fetchPapersWithCode_def FetchOtherBlogPosts_def Let_def
        fetchHackerNewsAIArticles_def fetchDevToAIArticles_def fetchCSDNArticles_def
        addSource_def failedSources_def)
  have l: "lastUpdated exampleServer = 1000"
    by (simp add: exampleServer_def)
  note a = failed_run_keeps_snapshot [where scraped = "Inl ''timeout''" and err = "''timeout''"
      and now = exampleNow and st = exampleServer and basic = "Inl ''timeout''"
      and srtR = id and enrich = id and fetched = "Inl ''timeout''"
      and g0 = "\<lambda>i. 0" and g = "\<lambda>i. 0" and src = failedSources and srt = id]
  note b = failed_run_keeps_snapshot [where fetched = ?f and err = ?e
      and now = exampleNow and st = exampleServer and basic = "Inl ?e" and scraped = "Inl ?e"
      and srtR = id and enrich = id
      and g0 = "\<lambda>i. 0" and g = "\<lambda>i. 0" and src = failedSources and srt = id]
  from a none have 1: "githubRepos (scrapeJob exampleNow (Inl ''timeout'') exampleServer)
        = githubRepos exampleServer"
    and 2: "lastUpdated (scrapeJob exampleNow (Inl ''timeout'') exampleServer) = lastUpdated exampleServer"
    and 3: "LogError ''Error scraping GitHub trending: %v'' ''timeout''
        \<in> set (logged (scrapeJob exampleNow (Inl ''timeout'') exampleServer))"
    and 4: "ScrapeGithubTrending id id exampleNow (Inl ''timeout'') = Inl ''timeout''"
    and 5: "\<exists>e. ?f = Inl e"
    by blast+
  from b f have 6: "researchPapers (papersJob exampleNow ?f exampleServer) = researchPapers exampleServer"
    and 7: "lastUpdated (papersJob exampleNow ?f exampleServer) = lastUpdated exampleServer"
    by blast+
  from 1 2 3 4 5 6 7 show ?thesis
    unfolding l by blast
qed

section \<open>Properties of the repository scoring\<close>

lemma keywordLoop_ge: "score \<le> keywordLoop lowerName lowerDesc kws score"
proof (induction kws arbitrary: score)
  case Nil
  show ?case by simp
next
  case (Cons k ks)
  let ?s1 = "if Contains lowerName k then score + 0.03 else score"
  let ?s2 = "if Contains lowerDesc k then ?s1 + 0.01 else ?s1"
  have "score \<le> ?s2" by simp
  also have "?s2 \<le> keywordLoop lowerName lowerDesc ks ?s2" by (rule Cons)
  finally show ?case by (simp add: Let_def)
qed

lemma techLoop_ge: "score \<le> techLoop techs score"
proof (induction techs arbitrary: score)
  case Nil
  show ?case by simp
next
  case (Cons t ts)
  let ?s = "if list_ex (Contains (ToLower t)) relevantKeywords then score + 0.02 else score"
  have "score \<le> ?s" by simp
  also have "?s \<le> techLoop ts ?s" by (rule Cons)
  finally show ?case by simp
qed

lemma minFloat_le: "minFloat a b \<le> b"
  by (simp add: minFloat_def)

lemma minFloat_nonneg: "0 \<le> a \<Longrightarrow> 0 \<le> b \<Longrightarrow> 0 \<le> minFloat a b"
  by (simp add: minFloat_def)

lemma scoreRepository_score:
  "RelevanceScore (scoreRepository now repo) =
     minFloat (minFloat (real_of_int (Stars repo) / 5000) 1 * 0.25
       + minFloat (real_of_int (Stars24h (TrendMetrics repo)) / 50) 1 * 0.35
       + (if LastCommit repo \<noteq> 0
          then (1 - minFloat (daysSince now (LastCommit repo) / 30) 1) * 0.15 else 0)
       + minFloat (techLoop (TechStack repo)
           (keywordLoop (ToLower (Name repo)) (ToLower (Description repo)) relevantKeywords 0.25))
           0.35) 1"
  by (simp add: scoreRepository_def Let_def)

lemma scoreRepository_le_1: "RelevanceScore (scoreRepository now repo) \<le> 1"
  unfolding scoreRepository_score by (rule minFloat_le)

lemma scoreRepository_nonneg:
  assumes "0 \<le> Stars repo" and "0 \<le> Stars24h (TrendMetrics repo)"
  shows "0 \<le> RelevanceScore (scoreRepository now repo)"
proof -
  have s: "0 \<le> minFloat (real_of_int (Stars repo) / 5000) 1 * 0.25"
    using assms(1) by (simp add: minFloat_nonneg)
  have g: "0 \<le> minFloat (real_of_int (Stars24h (TrendMetrics repo)) / 50) 1 * 0.35"
    using assms(2) by (simp add: minFloat_nonneg)
  have "minFloat (daysSince now (LastCommit repo) / 30) 1 \<le> 1"
    by (rule minFloat_le)
  then have r: "0 \<le> (if LastCommit repo \<noteq> 0
          then (1 - minFloat (daysSince now (LastCommit repo) / 30) 1) * 0.15 else 0)"
    by simp
  have "0.25 \<le> keywordLoop (ToLower (Name repo)) (ToLower (Description repo)) relevantKeywords 0.25"
    by (rule keywordLoop_ge)
  also have "\<dots> \<le> techLoop (TechStack repo)
      (keywordLoop (ToLower (Name repo)) (ToLower (Description repo)) relevantKeywords 0.25)"
    by (rule techLoop_ge)
  finally have k: "0 \<le> minFloat (techLoop (TechStack repo)
           (keywordLoop (ToLower (Name repo)) (ToLower (Description repo)) relevantKeywords 0.25))
           0.35"
    by (intro minFloat_nonneg) simp_all
  from s g r k have "0 \<le> minFloat (real_of_int (Stars repo) / 5000) 1 * 0.25
       + minFloat (real_of_int (Stars24h (TrendMetrics repo)) / 50) 1 * 0.35
       + (if LastCommit repo \<noteq> 0
          then (1 - minFloat (daysSince now (LastCommit repo) / 30) 1) * 0.15 else 0)
       + minFloat (techLoop (TechStack repo)
           (keywordLoop (ToLower (Name repo)) (ToLower (Description repo)) relevantKeywords 0.25))
           0.35"
    by (intro add_nonneg_nonneg)
  then show ?thesis
    unfolding scoreRepository_score by (rule minFloat_nonneg) simp
qed

lemma FetchTopPapers_novelty:
  assumes "\<forall>xs. mset (srt xs) = mset xs"
    and "FetchTopPapers srt now g0 g src = Inr papers" and "p \<in> set papers"
  shows "0 \<le> NoveltyScore p \<and> NoveltyScore p \<le> 5"
proof -
  let ?e = "enrichPapersWithScores now g (collected now g0 src)"
  from assms(2) have "papers = srt ?e"
    by (simp add: FetchTopPapers_collected split: if_splits sum.splits)
  then have "set papers = set ?e"
    using assms(1) by (metis set_mset_mset)
  with assms(3) have "p \<in> set ?e" by simp
  moreover have "\<forall>q\<in>set ?e. 0 \<le> NoveltyScore q \<and> NoveltyScore q \<le> 5"
    using collected_fresh [of now g0 src] by (intro enrichPapers_novelty) (simp add: fresh_def)
  ultimately show ?thesis by blast
qed

lemma sorts_sortDescending: "sorts (\<lambda>a b. f a > f b) (sortDescending f)"
proof -
  have "sorted_wrt (\<lambda>a b. \<not> f b > f a) (rev (sort_key f xs))" for xs
  proof -
    have "sorted (map f (sort_key f xs))"
      by (rule sorted_sort_key)
    then have "sorted_wrt (\<lambda>a b. f a \<le> f b) (sort_key f xs)"
      by (simp add: sorted_wrt_map)
    then show ?thesis
      by (simp add: sorted_wrt_rev not_less)
  qed
  then show ?thesis
    by (simp add: sorts_def sortDescending_def)
qed

lemma sorts_papers: "sorts (papersLess now) (sortDescending (relevance now))"
  using sorts_sortDescending [of "relevance now"] by (simp add: papersLess_def [abs_def])

lemma devTo_example_raw: "NoveltyScore (devToPaper exampleNow exampleArticle) = 6"
  by (simp add: devToPaper_def exampleArticle_def minInt_def toInt_def)

lemma devTo_example_paper:
  "devToPaper exampleNow exampleArticle =
     \<lparr>Title = ''A new agent'', URL' = ''https://dev.to/a'', Authors' = [''Ann''],
      PublishedDate = exampleNow, Source' = ''Dev.to'', Summary = [], CitationCount = 7,
      CitationVelocity = 7, NoveltyScore = 6, ReproducibilityScore = 0,
      CoreContributions = []\<rparr>"
  by (simp add: devToPaper_def exampleArticle_def minInt_def maxInt_def toInt_def zeroPaper_def
      daysSince_def Since_def Hours_def)

lemma example_collected: "collected exampleNow g0 devToSources = [devToPaper exampleNow exampleArticle]"
  by (simp add: collected_def fetchPapersWithCode_def FetchOtherBlogPosts_def Let_def
      fetchHackerNewsAIArticles_def fetchDevToAIArticles_def fetchCSDNArticles_def
      addSource_def devToSources_def)

lemma example_split: "Split ''a new agent'' '' '' = [''a'', ''new'', ''agent'']"
  by (simp add: Split_def)

lemma example_lower: "ToLower ''A new agent'' = ''a new agent''"
  by (simp add: ToLower_def toLowerChar_def)

lemma example_novelty:
  "Title q = ''A new agent'' \<Longrightarrow> Summary q = [] \<Longrightarrow> termScore q noveltyTerms 3 = 33 / 10"
  by (simp add: noveltyTerms_def containsAny_def ToLower_def toLowerChar_def)

lemma example_repro:
  "Title q = ''A new agent'' \<Longrightarrow> Summary q = [] \<Longrightarrow> termScore q reproducibilityTerms (5 / 2) = 5 / 2"
  by (simp add: reproducibilityTerms_def containsAny_def ToLower_def toLowerChar_def)

lemma example_days: "daysSince exampleNow exampleNow = 0"
  by (simp add: daysSince_def Since_def Hours_def)

lemma example_preEnhance:
  "preEnhance exampleNow (devToPaper exampleNow exampleArticle) (\<lambda>i. 0)
     = ((devToPaper exampleNow exampleArticle)\<lparr>ReproducibilityScore := 2\<rparr>, rnext (\<lambda>i. 0))"
  by (simp add: preEnhance_def Let_def devTo_example_paper Float64_def)

lemma example_enhance:
  "fst (enhancePaperWithDetails exampleNow
      ((devToPaper exampleNow exampleArticle)\<lparr>ReproducibilityScore := 2\<rparr>) (rnext (\<lambda>i. 0)))
     = exampleEnriched"
proof -
  have c: "coreContributions [] = []"
    by (simp add: coreContributions_def Split_def)
  show ?thesis
    unfolding enhancePaperWithDetails_def Let_def
    by (simp add: c example_novelty example_repro example_days example_lower example_split
        Intn_def rnext_def daysSincePublication_def toInt_def capScore_def exampleEnriched_def
        devTo_example_paper)
qed

lemma example_FetchTopPapers:
  "FetchTopPapers (sortDescending (relevance exampleNow)) exampleNow g0 (\<lambda>i. 0) devToSources
     = Inr [exampleEnriched]"
proof -
  have "enrichPaper exampleNow (devToPaper exampleNow exampleArticle) (\<lambda>i. 0)
      = enhancePaperWithDetails exampleNow
          ((devToPaper exampleNow exampleArticle)\<lparr>ReproducibilityScore := 2\<rparr>) (rnext (\<lambda>i. 0))"
    by (simp add: enrichPaper_preEnhance example_preEnhance devTo_core)
  then have "enrichPapersWithScores exampleNow (\<lambda>i. 0) [devToPaper exampleNow exampleArticle]
      = [exampleEnriched]"
    using example_enhance by (simp add: split_beta)
  then show ?thesis
    by (simp add: FetchTopPapers_collected example_collected sortDescending_def)
qed

text \<open>
  C1. After scoring, every repository of \<open>calculateRelevanceScores\<close> has its relevance
  score in \<open>[0, 1]\<close>, for repositories whose counters \<open>Stars\<close> and \<open>Stars24h\<close> are not
  negative (as the data model has them); and every paper that \<open>FetchTopPapers\<close> returns,
  whatever its fetcher, has its novelty score in \<open>[0, 5]\<close>.
\<close>

theorem scores_in_range:
  assumes "\<forall>r\<in>set repos. 0 \<le> Stars r \<and> 0 \<le> Stars24h (TrendMetrics r)"
    and "sorts (papersLess now) srt"
  shows "(\<forall>r\<in>set (calculateRelevanceScores now repos). 0 \<le> RelevanceScore r \<and> RelevanceScore r \<le> 1)
    \<and> (\<forall>papers. FetchTopPapers srt now g0 g src = Inr papers \<longrightarrow>
          (\<forall>p\<in>set papers. 0 \<le> NoveltyScore p \<and> NoveltyScore p \<le> 5))"
proof (intro conjI allI impI ballI)
  fix r assume "r \<in> set (calculateRelevanceScores now repos)"
  then have "r \<in> scoreRepository now ` set repos"
    by (simp add: calculateRelevanceScores_def)
  then obtain r0 where r0: "r0 \<in> set repos" "r = scoreRepository now r0"
    by (rule imageE) (rule that)
  from r0(1) assms(1) have "0 \<le> Stars r0" "0 \<le> Stars24h (TrendMetrics r0)"
    by simp_all
  then show "0 \<le> RelevanceScore r"
    unfolding r0(2) by (rule scoreRepository_nonneg)
  show "RelevanceScore r \<le> 1"
    unfolding r0(2) by (rule scoreRepository_le_1)
next
  fix papers p
  assume "FetchTopPapers srt now g0 g src = Inr papers" "p \<in> set papers"
  moreover have "\<forall>xs. mset (srt xs) = mset xs"
    using assms(2) by (simp add: sorts_def)
  ultimately have "0 \<le> NoveltyScore p \<and> NoveltyScore p \<le> 5"
    by (rule FetchTopPapers_novelty [rotated])
  then show "0 \<le> NoveltyScore p" "NoveltyScore p \<le> 5"
    by simp_all
qed

lemma example_score: "RelevanceScore (scoreRepository exampleNow repoA) = 0.25005"
  by (simp add: scoreRepository_score repoA_def zeroRepository_def relevantKeywords_def
      minFloat_def ToLower_def toLowerChar_def)

theorem scores_in_range_witness:
  "0 \<le> Stars repoA \<and> 0 \<le> Stars24h (TrendMetrics repoA)
   \<and> calculateRelevanceScores exampleNow [repoA] = [scoreRepository exampleNow repoA]
   \<and> 0 \<le> RelevanceScore (scoreRepository exampleNow repoA)
   \<and> RelevanceScore (scoreRepository exampleNow repoA) \<le> 1
   \<and> NoveltyScore (devToPaper exampleNow exampleArticle) = 6
   \<and> FetchTopPapers (sortDescending (relevance exampleNow)) exampleNow (\<lambda>i. 0) (\<lambda>i. 0) devToSources
       = Inr [exampleEnriched]
   \<and> 0 \<le> NoveltyScore exampleEnriched \<and> NoveltyScore exampleEnriched \<le> 5"
proof -
  have h1: "\<forall>r\<in>set [repoA]. 0 \<le> Stars r \<and> 0 \<le> Stars24h (TrendMetrics r)"
    by (simp add: repoA_def zeroRepository_def)
  have c: "calculateRelevanceScores exampleNow [repoA] = [scoreRepository exampleNow repoA]"
    by (simp add: calculateRelevanceScores_def)
  note f = example_FetchTopPapers [of "\<lambda>i. 0"]
  note inst = scores_in_range [where repos = "[repoA]" and now = exampleNow
      and srt = "sortDescending (relevance exampleNow)" and ?g0.0 = "\<lambda>i. 0" and g = "\<lambda>i. 0"
      and src = devToSources, OF h1 sorts_papers]
  from inst have "0 \<le> RelevanceScore (scoreRepository exampleNow repoA)
      \<and> RelevanceScore (scoreRepository exampleNow repoA) \<le> 1"
    unfolding c by simp
  moreover from inst f have "0 \<le> NoveltyScore exampleEnriched \<and> NoveltyScore exampleEnriched \<le> 5"
    by simp
  ultimately show ?thesis
    using h1 c f devTo_example_raw by simp
qed

text \<open>
  The lower bound of C1 rests on the counters: \<open>calculateRelevanceScores\<close> clamps the
  sum from above only, so a negative \<open>Stars\<close>, which the data model excludes, would
  give a negative score.
\<close>

lemma negative_stars_score:
  "RelevanceScore (scoreRepository exampleNow (repoA\<lparr>Stars := - 20000\<rparr>)) = - 0.75"
  by (simp add: scoreRepository_score repoA_def zeroRepository_def relevantKeywords_def
      minFloat_def ToLower_def toLowerChar_def)

section \<open>Determinism of the scoring step\<close>

lemma scoreRepository_inputs:
  assumes "Stars a = Stars b" and "Stars24h (TrendMetrics a) = Stars24h (TrendMetrics b)"
    and "LastCommit a = LastCommit b" and "Name a = Name b" and "Description a = Description b"
    and "TechStack a = TechStack b"
  shows "RelevanceScore (scoreRepository now a) = RelevanceScore (scoreRepository now b)"
  unfolding scoreRepository_score using assms by simp

lemma example_enhance_1:
  "fst (enhancePaperWithDetails exampleNow
      ((devToPaper exampleNow exampleArticle)\<lparr>ReproducibilityScore := r\<rparr>) (\<lambda>i. 1))
     = exampleEnriched\<lparr>CitationCount := 5, CitationVelocity := 5\<rparr>"
proof -
  have c: "coreContributions [] = []"
    by (simp add: coreContributions_def Split_def)
  show ?thesis
    unfolding enhancePaperWithDetails_def Let_def
    by (simp add: c example_novelty example_repro example_days example_lower example_split
        Intn_def rnext_def daysSincePublication_def toInt_def capScore_def exampleEnriched_def
        devTo_example_paper)
qed

lemma example_run_0:
  "enrichPapersWithScores exampleNow (\<lambda>i. 0) [devToPaper exampleNow exampleArticle]
     = [exampleEnriched]"
proof -
  have "enrichPaper exampleNow (devToPaper exampleNow exampleArticle) (\<lambda>i. 0)
      = enhancePaperWithDetails exampleNow
          ((devToPaper exampleNow exampleArticle)\<lparr>ReproducibilityScore := 2\<rparr>) (rnext (\<lambda>i. 0))"
    by (simp add: enrichPaper_preEnhance example_preEnhance devTo_core)
  then show ?thesis
    using example_enhance by (simp add: split_beta)
qed

lemma example_run_1:
  "enrichPapersWithScores exampleNow (\<lambda>i. 1) [devToPaper exampleNow exampleArticle]
     = [exampleEnriched\<lparr>CitationCount := 5, CitationVelocity := 5\<rparr>]"
proof -
  have "preEnhance exampleNow (devToPaper exampleNow exampleArticle) (\<lambda>i. 1)
     = ((devToPaper exampleNow exampleArticle)\<lparr>ReproducibilityScore := 2 + Float64 (\<lambda>i. 1) * 3\<rparr>,
        \<lambda>i. 1)"
    by (simp add: preEnhance_def Let_def devTo_example_paper rnext_def)
  then have "enrichPaper exampleNow (devToPaper exampleNow exampleArticle) (\<lambda>i. 1)
      = enhancePaperWithDetails exampleNow
          ((devToPaper exampleNow exampleArticle)\<lparr>ReproducibilityScore := 2 + Float64 (\<lambda>i. 1) * 3\<rparr>)
          (\<lambda>i. 1)"
    by (simp add: enrichPaper_preEnhance devTo_core)
  then show ?thesis
    using example_enhance_1 [of "2 + Float64 (\<lambda>i. 1) * 3"] by (simp add: split_beta)
qed

lemma unscored_run:
  "map NoveltyScore (enrichPapersWithScores exampleNow g [unscoredPaper]) = [3 + Float64 g * 2]"
proof -
  have "enrichPaper exampleNow unscoredPaper g = preEnhance exampleNow unscoredPaper g"
    by (simp add: enrichPaper_preEnhance preEnhance_core unscoredPaper_def)
  moreover have "NoveltyScore (fst (preEnhance exampleNow unscoredPaper g)) = 3 + Float64 g * 2"
    by (simp add: preEnhance_novelty unscoredPaper_def zeroPaper_def)
  ultimately show ?thesis
    by (simp add: split_beta)
qed

lemma termScore_cong:
  "Title p = Title q \<Longrightarrow> Summary p = Summary q \<Longrightarrow> termScore p ts s = termScore q ts s"
  by (induction ts arbitrary: s) (simp_all add: Let_def)

lemma enhance_novelty_eq:
  "NoveltyScore (fst (enhancePaperWithDetails now paper g))
     = capScore (termScore paper noveltyTerms 3.0)"
proof -
  have "\<exists>q. Title q = Title paper \<and> Summary q = Summary paper
      \<and> NoveltyScore (fst (enhancePaperWithDetails now paper g))
        = capScore (termScore q noveltyTerms 3.0)"
    unfolding enhancePaperWithDetails_def Let_def
    by (rule exI [of _ "paper\<lparr>CitationCount := c, CitationVelocity := v\<rparr>" for c v])
       (simp split del: if_split)
  then obtain q where q: "Title q = Title paper" "Summary q = Summary paper"
    "NoveltyScore (fst (enhancePaperWithDetails now paper g)) = capScore (termScore q noveltyTerms 3.0)"
    by blast
  from q(1,2) have "termScore q noveltyTerms 3.0 = termScore paper noveltyTerms 3.0"
    by (rule termScore_cong)
  with q(3) show ?thesis by simp
qed

lemma preEnhance_text:
  "Title (fst (preEnhance now paper g)) = Title paper
   \<and> Summary (fst (preEnhance now paper g)) = Summary paper"
  unfolding preEnhance_def Let_def
  by (simp split: prod.splits if_splits)

text \<open>
  What is determined: the relevance score of a repository is a function of the instant
  and of six of its fields, and the novelty score of a paper without core contributions
  (every paper that \<open>FetchTopPapers\<close> collects is one) is a function of its title and
  summary, whatever the generator draws.
\<close>

lemma fresh_novelty_deterministic:
  assumes "CoreContributions paper = []"
  shows "NoveltyScore (fst (enrichPaper now paper g)) = capScore (termScore paper noveltyTerms 3.0)"
proof -
  have "enrichPaper now paper g
      = enhancePaperWithDetails now (fst (preEnhance now paper g)) (snd (preEnhance now paper g))"
    using assms by (simp add: enrichPaper_preEnhance preEnhance_core)
  then have "NoveltyScore (fst (enrichPaper now paper g))
      = capScore (termScore (fst (preEnhance now paper g)) noveltyTerms 3.0)"
    by (simp only: enhance_novelty_eq)
  also have "\<dots> = capScore (termScore paper noveltyTerms 3.0)"
    using termScore_cong [of "fst (preEnhance now paper g)" paper noveltyTerms "3.0"]
      preEnhance_text [of now paper g] by simp
  finally show ?thesis .
qed

text \<open>
  C6, for papers: two runs of \<open>enrichPapersWithScores\<close> over the same paper at the same
  instant differ as soon as the generator, which the function seeds from the clock,
  draws differently. For a paper as the fetchers build it (here the Dev.to example) the
  citation count and the citation velocity differ; for a paper that has core
  contributions and no novelty score, the novelty score differs.
\<close>

theorem enrichPapersWithScores_not_deterministic:
  "map CitationVelocity
     (enrichPapersWithScores exampleNow (\<lambda>i. 0) [devToPaper exampleNow exampleArticle]) = [4]
   \<and> map CitationVelocity
     (enrichPapersWithScores exampleNow (\<lambda>i. 1) [devToPaper exampleNow exampleArticle]) = [5]
   \<and> map NoveltyScore (enrichPapersWithScores exampleNow (\<lambda>i. 0) [unscoredPaper]) = [3]
   \<and> map NoveltyScore (enrichPapersWithScores exampleNow (\<lambda>i. 2 ^ 52) [unscoredPaper]) = [4]"
  unfolding example_run_0 example_run_1 unscored_run
  by (simp add: exampleEnriched_def Float64_def)

section \<open>Properties of the post-merge filter\<close>

lemma sorts_length: "sorts lt srt \<Longrightarrow> length (srt xs) = length xs"
  unfolding sorts_def by (metis size_mset)

lemma mset_take_drop: "mset xs = mset (take n xs) + mset (drop n xs)"
  by (metis append_take_drop_id mset_append)

lemma sorted_take_drop:
  assumes "sorted_wrt P xs" and "a \<in> set (take n xs)" and "b \<in> set (drop n xs)"
  shows "P a b"
proof -
  have "sorted_wrt P (take n xs @ drop n xs)"
    using assms(1) by simp
  then show ?thesis
    using assms(2,3) unfolding sorted_wrt_append by blast
qed

lemma applyFilterCriteria_cases:
  "applyFilterCriteria srt now repos criteria =
     (if length repos < 50 then repos
      else if length (filter (passes now criteria) repos) < 50 then take 50 (srt repos)
      else filter (passes now criteria) repos)"
  by (simp add: applyFilterCriteria_def Let_def)

lemma floor_keeps_best:
  assumes s: "sorts scoreLess srt"
    and few: "length (filter (passes now criteria) repos) < 50"
  shows "length (applyFilterCriteria srt now repos criteria) = min 50 (length repos)
    \<and> mset (applyFilterCriteria srt now repos criteria) \<subseteq># mset repos
    \<and> (\<forall>a\<in>#mset (applyFilterCriteria srt now repos criteria).
         \<forall>b\<in>#mset repos - mset (applyFilterCriteria srt now repos criteria).
           RelevanceScore b \<le> RelevanceScore a)"
proof (cases "length repos < 50")
  case True
  then show ?thesis
    by (simp add: applyFilterCriteria_cases)
next
  case False
  let ?s = "srt repos"
  have out: "applyFilterCriteria srt now repos criteria = take 50 ?s"
    using False few by (simp add: applyFilterCriteria_cases)
  have m: "mset ?s = mset repos" and sw: "sorted_wrt (\<lambda>a b. \<not> scoreLess b a) ?s"
    using s by (simp_all add: sorts_def)
  have l: "length (take 50 ?s) = min 50 (length repos)"
    using False by (simp add: sorts_length [OF s])
  have split: "mset repos = mset (take 50 ?s) + mset (drop 50 ?s)"
    unfolding m [symmetric] by (rule mset_take_drop)
  then have sub: "mset (take 50 ?s) \<subseteq># mset repos"
    by simp
  from split have rest: "mset repos - mset (take 50 ?s) = mset (drop 50 ?s)"
    by simp
  have best: "RelevanceScore b \<le> RelevanceScore a"
    if "a \<in> set (take 50 ?s)" and "b \<in> set (drop 50 ?s)" for a b
    using sorted_take_drop [OF sw that] by (simp add: scoreLess_def)
  show ?thesis
    unfolding out rest using l sub best by simp
qed

lemma floor_length:
  assumes s: "sorts scoreLess srt"
  shows "min 50 (length repos) \<le> length (applyFilterCriteria srt now repos criteria)"
proof (cases "length (filter (passes now criteria) repos) < 50")
  case True
  then show ?thesis
    using floor_keeps_best [OF s True] by simp
next
  case False
  then have "applyFilterCriteria srt now repos criteria = filter (passes now criteria) repos
      \<or> applyFilterCriteria srt now repos criteria = repos"
    by (simp add: applyFilterCriteria_cases)
  with False show ?thesis
    by (auto simp: min_def)
qed

text \<open>
  C5. With the default criteria, \<open>applyFilterCriteria\<close> returns at least
  \<open>min(50, len(repos))\<close> repositories, whatever their last commits; and when the criteria
  leave fewer than 50, it returns exactly that many of the input, none of them with a
  lower relevance score than a repository it drops.
\<close>

theorem applyFilterCriteria_floor:
  assumes "sorts scoreLess srt"
  shows "min 50 (length repos) \<le> length (applyFilterCriteria srt now repos DefaultFilterCriteria)
    \<and> (length (filter (passes now DefaultFilterCriteria) repos) < 50 \<longrightarrow>
         length (applyFilterCriteria srt now repos DefaultFilterCriteria) = min 50 (length repos)
         \<and> mset (applyFilterCriteria srt now repos DefaultFilterCriteria) \<subseteq># mset repos
         \<and> (\<forall>a\<in>#mset (applyFilterCriteria srt now repos DefaultFilterCriteria).
              \<forall>b\<in>#mset repos - mset (applyFilterCriteria srt now repos DefaultFilterCriteria).
                RelevanceScore b \<le> RelevanceScore a))"
  using floor_length [OF assms, of repos now DefaultFilterCriteria]
    floor_keeps_best [OF assms, of now DefaultFilterCriteria repos]
  by blast

lemma sorts_repos: "sorts scoreLess (sortDescending RelevanceScore)"
  using sorts_sortDescending [of RelevanceScore] by (simp add: scoreLess_def [abs_def])

lemma manyRepos_filtered:
  "filter (passes exampleNow DefaultFilterCriteria) manyRepos = [highRepo]"
  by (simp add: manyRepos_def passes_def DefaultFilterCriteria_def lowRepo_def highRepo_def
      repoA_def repoC_def zeroRepository_def)

theorem applyFilterCriteria_floor_witness:
  "length manyRepos = 51
   \<and> length (filter (passes exampleNow DefaultFilterCriteria) manyRepos) = 1
   \<and> length (applyFilterCriteria (sortDescending RelevanceScore) exampleNow manyRepos
        DefaultFilterCriteria) = 50
   \<and> mset (applyFilterCriteria (sortDescending RelevanceScore) exampleNow manyRepos
        DefaultFilterCriteria) \<subseteq># mset manyRepos"
proof -
  have n: "length manyRepos = 51"
    by (simp add: manyRepos_def)
  have f: "length (filter (passes exampleNow DefaultFilterCriteria) manyRepos) = 1"
    by (simp add: manyRepos_filtered)
  note inst = applyFilterCriteria_floor [OF sorts_repos, of manyRepos exampleNow]
  from inst f have "length (applyFilterCriteria (sortDescending RelevanceScore) exampleNow manyRepos
        DefaultFilterCriteria) = min 50 (length manyRepos)
   \<and> mset (applyFilterCriteria (sortDescending RelevanceScore) exampleNow manyRepos
        DefaultFilterCriteria) \<subseteq># mset manyRepos"
    by simp
  with n f show ?thesis
    by simp
qed

section \<open>Properties of the authors field\<close>

lemma those_map_Some:
  "(\<And>x. x \<in> set xs \<Longrightarrow> f x = Some (g x)) \<Longrightarrow> those (map f xs) = Some (map g xs)"
  by (induction xs) simp_all

lemma those_map_None: "x \<in> set xs \<Longrightarrow> f x = None \<Longrightarrow> those (map f xs) = None"
  by (induction xs) (auto split: option.splits)

lemma objectName_others:
  "\<forall>(k, v)\<in>set kvs. ToLower k \<noteq> ''name'' \<Longrightarrow> objectName kvs name = Some name"
  by (induction kvs arbitrary: name) auto

lemma objectName_append:
  "\<forall>(k, v)\<in>set pre. ToLower k \<noteq> ''name'' \<Longrightarrow> objectName (pre @ kvs) name = objectName kvs name"
  by (induction pre arbitrary: name) auto

lemma lower_name: "ToLower ''name'' = ''name''"
  by (simp add: ToLower_def toLowerChar_def)

lemma object_decode:
  assumes "\<forall>(k, v)\<in>set (pre @ post). ToLower k \<noteq> ''name''"
  shows "elementName (JObject (pre @ (''name'', JString n) # post)) = Some n"
proof -
  from assms have pre: "\<forall>(k, v)\<in>set pre. ToLower k \<noteq> ''name''"
    and post: "\<forall>(k, v)\<in>set post. ToLower k \<noteq> ''name''"
    by auto
  have "objectName (pre @ (''name'', JString n) # post) [] = objectName ((''name'', JString n) # post) []"
    by (rule objectName_append [OF pre])
  also have "\<dots> = objectName post n"
    by (simp add: lower_name)
  also have "\<dots> = Some n"
    by (rule objectName_others [OF post])
  finally show ?thesis
    by (simp add: elementName_def)
qed

lemma objects_decode:
  assumes "\<forall>(pre, n, post)\<in>set objs. \<forall>(k, v)\<in>set (pre @ post). ToLower k \<noteq> ''name''"
  shows "unmarshalAuthorsArray
      (Some (JArray (map (\<lambda>(pre, n, post). JObject (pre @ (''name'', JString n) # post)) objs)))
     = Some (map (\<lambda>(pre, n, post). n) objs)"
proof -
  have "those (map elementName
        (map (\<lambda>(pre, n, post). JObject (pre @ (''name'', JString n) # post)) objs))
      = Some (map (\<lambda>(pre, n, post). n) objs)"
    unfolding map_map
  proof (rule those_map_Some)
    fix x assume x: "x \<in> set objs"
    obtain pre n post where t: "x = (pre, n, post)"
      by (cases x)
    from assms x have "\<forall>(k, v)\<in>set (pre @ post). ToLower k \<noteq> ''name''"
      unfolding t by blast
    then have "elementName (JObject (pre @ (''name'', JString n) # post)) = Some n"
      by (rule object_decode)
    then show "(elementName \<circ> (\<lambda>(pre, n, post). JObject (pre @ (''name'', JString n) # post))) x
        = Some ((\<lambda>(pre, n, post). n) x)"
      unfolding t by simp
  qed
  then show ?thesis
    by (simp add: unmarshalAuthorsArray_def)
qed

lemma strings_decode:
  "unmarshalAuthorStrArray (Some (JArray (map JString ss))) = Some ss"
proof -
  have "those (map elementString (map JString ss)) = Some (map (\<lambda>s. s) ss)"
    unfolding map_map
    by (rule those_map_Some) (simp add: elementString_def)
  then show ?thesis
    by (simp add: unmarshalAuthorStrArray_def)
qed

lemma strings_not_objects:
  assumes "ss \<noteq> []"
  shows "unmarshalAuthorsArray (Some (JArray (map JString ss))) = None"
proof -
  from assms obtain s where s: "s \<in> set ss"
    by (cases ss) auto
  have "those (map elementName (map JString ss)) = None"
    unfolding map_map
    by (rule those_map_None [OF s]) (simp add: elementName_def)
  then show ?thesis
    by (simp add: unmarshalAuthorsArray_def)
qed

text \<open>
  C7. \<open>parseAuthors\<close> gives a string list for every authors field: for a list of objects
  with one string field \<open>name\<close> each (among other fields), the names; for a single string, that string alone; for a list of
  strings, that list; and the one-element list \<open>Unknown Author\<close> when none of the three
  \<open>json.Unmarshal\<close> calls succeeds.
\<close>

theorem parseAuthors_shapes:
  "((\<forall>(pre, n, post)\<in>set objs. \<forall>(k, v)\<in>set (pre @ post). ToLower k \<noteq> ''name'') \<longrightarrow>
      parseAuthors
        (Some (JArray (map (\<lambda>(pre, n, post). JObject (pre @ (''name'', JString n) # post)) objs)))
      = map (\<lambda>(pre, n, post). n) objs)
   \<and> parseAuthors (Some (JString s)) = [s]
   \<and> parseAuthors (Some (JArray (map JString ss))) = ss
   \<and> (unmarshalAuthorsArray raw = None \<and> unmarshalAuthorStr raw = None
        \<and> unmarshalAuthorStrArray raw = None
      \<longrightarrow> parseAuthors raw = [''Unknown Author''])"
proof (intro conjI impI)
  assume "\<forall>(pre, n, post)\<in>set objs. \<forall>(k, v)\<in>set (pre @ post). ToLower k \<noteq> ''name''"
  then show "parseAuthors
        (Some (JArray (map (\<lambda>(pre, n, post). JObject (pre @ (''name'', JString n) # post)) objs)))
      = map (\<lambda>(pre, n, post). n) objs"
    by (simp add: parseAuthors_def objects_decode)
next
  show "parseAuthors (Some (JString s)) = [s]"
    by (simp add: parseAuthors_def unmarshalAuthorsArray_def unmarshalAuthorStr_def)
  show "parseAuthors (Some (JArray (map JString ss))) = ss"
  proof (cases "ss = []")
    case True
    then show ?thesis
      by (simp add: parseAuthors_def unmarshalAuthorsArray_def)
  next
    case False
    then show ?thesis
      by (simp add: parseAuthors_def strings_not_objects strings_decode unmarshalAuthorStr_def)
  qed
next
  assume "unmarshalAuthorsArray raw = None \<and> unmarshalAuthorStr raw = None
        \<and> unmarshalAuthorStrArray raw = None"
  then show "parseAuthors raw = [''Unknown Author'']"
    by (simp add: parseAuthors_def)
qed

lemma number_fails:
  "unmarshalAuthorsArray (Some (JNumber 42)) = None \<and> unmarshalAuthorStr (Some (JNumber 42)) = None
   \<and> unmarshalAuthorStrArray (Some (JNumber 42)) = None"
  by (simp add: unmarshalAuthorsArray_def unmarshalAuthorStr_def unmarshalAuthorStrArray_def)

theorem parseAuthors_shapes_witness:
  "parseAuthors (Some (JArray [JObject [(''id'', JNumber 1), (''name'', JString ''Ann'')],
        JObject [(''name'', JString ''Bo''), (''affiliation'', JNull)]]))
     = [''Ann'', ''Bo'']
   \<and> parseAuthors (Some (JString ''Ann'')) = [''Ann'']
   \<and> parseAuthors (Some (JArray [JString ''Ann'', JString ''Bo''])) = [''Ann'', ''Bo'']
   \<and> parseAuthors (Some (JNumber 42)) = [''Unknown Author'']
   \<and> parseAuthors None = [''Unknown Author'']"
proof -
  note a = parseAuthors_shapes [where objs = "[([(''id'', JNumber 1)], ''Ann'', []),
        ([], ''Bo'', [(''affiliation'', JNull)])]" and s = "''Ann''"
      and ss = "[''Ann'', ''Bo'']" and raw = "Some (JNumber 42)"]
  note b = parseAuthors_shapes [where objs = "[]" and s = "[]" and ss = "[]" and raw = None]
  have k: "ToLower ''id'' \<noteq> ''name''" "ToLower ''affiliation'' \<noteq> ''name''"
    by (simp_all add: ToLower_def toLowerChar_def)
  have n: "unmarshalAuthorsArray None = None \<and> unmarshalAuthorStr None = None
      \<and> unmarshalAuthorStrArray None = None"
    by (simp add: unmarshalAuthorsArray_def unmarshalAuthorStr_def unmarshalAuthorStrArray_def)
  from a number_fails b n k show ?thesis
    by simp
qed

text \<open>
  A JSON \<open>null\<close> is none of the three shapes, and yet the first \<open>json.Unmarshal\<close> accepts
  it and leaves the slice empty: the authors are the empty list, not the placeholder.
\<close>

lemma parseAuthors_null: "parseAuthors (Some JNull) = []"
  by (simp add: parseAuthors_def unmarshalAuthorsArray_def)

end
